theory Spec2Isabelle
  imports Complex_Main
begin

section \<open>Numbers and errors\<close>

text \<open>
  The program computes with numpy's float64 values. A value is not-a-number, an infinity
  or a finite number; rounding is not represented (a finite value is a real). Only the
  operations the program applies are defined.
\<close>

datatype fl = NaN | PInf | NInf | Fin real

fun fl_add :: "fl \<Rightarrow> fl \<Rightarrow> fl" where
  "fl_add (Fin a) (Fin b) = Fin (a + b)"
| "fl_add NaN _ = NaN"
| "fl_add _ NaN = NaN"
| "fl_add PInf NInf = NaN"
| "fl_add NInf PInf = NaN"
| "fl_add PInf _ = PInf"
| "fl_add _ PInf = PInf"
| "fl_add NInf _ = NInf"
| "fl_add _ NInf = NInf"

fun fl_neg :: "fl \<Rightarrow> fl" where
  "fl_neg NaN = NaN"
| "fl_neg PInf = NInf"
| "fl_neg NInf = PInf"
| "fl_neg (Fin a) = Fin (- a)"

definition fl_sub :: "fl \<Rightarrow> fl \<Rightarrow> fl" where
  "fl_sub a b = fl_add a (fl_neg b)"

definition fl_inf :: "bool \<Rightarrow> fl" where
  "fl_inf positive = (if positive then PInf else NInf)"

fun fl_sign :: "fl \<Rightarrow> bool" where
  "fl_sign PInf = True"
| "fl_sign NInf = False"
| "fl_sign (Fin a) = (0 \<le> a)"
| "fl_sign NaN = True"

fun fl_mul :: "fl \<Rightarrow> fl \<Rightarrow> fl" where
  "fl_mul (Fin a) (Fin b) = Fin (a * b)"
| "fl_mul NaN _ = NaN"
| "fl_mul _ NaN = NaN"
| "fl_mul (Fin a) b = (if a = 0 then NaN else fl_inf ((0 < a) = fl_sign b))"
| "fl_mul a (Fin b) = (if b = 0 then NaN else fl_inf (fl_sign a = (0 < b)))"
| "fl_mul a b = fl_inf (fl_sign a = fl_sign b)"

text \<open>
  Division of numpy floats does not raise: a zero divisor gives an infinity (or
  not-a-number for \<open>0 / 0\<close>). The sign of a zero is not represented; a zero divisor
  counts as positive, which is what the difference of two equal numbers is.
\<close>

fun fl_div :: "fl \<Rightarrow> fl \<Rightarrow> fl" where
  "fl_div (Fin a) (Fin b) =
     (if b = 0 then (if a = 0 then NaN else fl_inf (0 < a)) else Fin (a / b))"
| "fl_div NaN _ = NaN"
| "fl_div _ NaN = NaN"
| "fl_div (Fin a) _ = Fin 0"
| "fl_div a (Fin b) = fl_inf (fl_sign a = (0 \<le> b))"
| "fl_div _ _ = NaN"

text \<open>\<open>a**2\<close> on a float.\<close>

definition fl_sq :: "fl \<Rightarrow> fl" where
  "fl_sq a = fl_mul a a"

text \<open>The exceptions that the modelled code paths can raise.\<close>

datatype pyerr =
    UnboundLocalError
  | IndexError
  | ValueError
  | OverflowError
  | LibraryError string

text \<open>Sequencing of steps that may raise: the first exception ends the computation.\<close>

definition bind :: "pyerr + 'a \<Rightarrow> ('a \<Rightarrow> pyerr + 'b) \<Rightarrow> pyerr + 'b" where
  "bind m f = (case m of Inl e \<Rightarrow> Inl e | Inr v \<Rightarrow> f v)"

section \<open>Pupil area and the raw series\<close>

text \<open>
  An ellipse is the tuple \<open>((x0, y0), (b, a), phi)\<close> of the ellipse fitter.
\<close>

type_synonym ellipse = "(fl \<times> fl) \<times> (fl \<times> fl) \<times> fl"

text \<open>
  \<open>PupilArea\<close> (the same text in \<open>mrgaze/pupilometry.py\<close> and
  \<open>geetee/pupilometry.py\<close>): unpack the tuple, return \<open>np.pi * a**2\<close>.
\<close>

definition PupilArea :: "ellipse \<Rightarrow> fl" where
  "PupilArea ellipse =
     (case ellipse of ((x0, y0), (b, a), phi_b_deg) \<Rightarrow> fl_mul (Fin pi) (fl_sq a))"

text \<open>
  The conversions \<open>%0.3f\<close> and \<open>%0.1f\<close> write a number with three and with one
  decimal place: the decimal nearest to the value, the even one of two that are
  equally near. A not-a-number and an infinity are written as \<open>nan\<close> and \<open>inf\<close>.
  \<open>fmt_f d v\<close> is the number that the text written for \<open>v\<close> denotes.
\<close>

definition round_half_even :: "real \<Rightarrow> int" where
  "round_half_even x =
     (let f = \<lfloor>x\<rfloor>;
          r = x - of_int f
      in if r < 1 / 2 then f else if 1 / 2 < r then f + 1 else if even f then f else f + 1)"

definition fmt_f :: "nat \<Rightarrow> fl \<Rightarrow> fl" where
  "fmt_f d v =
     (case v of
        Fin x \<Rightarrow> Fin (of_int (round_half_even (x * 10 ^ d)) / 10 ^ d)
      | _ \<Rightarrow> v)"

text \<open>
  A line of the raw series is the list of its comma-separated fields, each field the
  number that its text denotes. The line ends with a comma, so it has an empty ninth
  field, which reads back as not-a-number.
\<close>

type_synonym csv = "fl list list"

text \<open>\<open>%d\<close> of the blink flag writes 0 or 1.\<close>

definition fl_of_bool :: "bool \<Rightarrow> fl" where
  "fl_of_bool b = Fin (if b then 1 else 0)"

text \<open>
  \<open>WritePupilometry\<close> of \<open>mrgaze/pupilometry.py\<close>: appends one line to the stream,
  written with the format \<open>%0.3f,%0.1f,%0.1f,%0.1f,%d,%0.3f,%0.3f,%0.3f,\<close>, and returns
  the area.
\<close>

definition WritePupilometry ::
  "csv \<Rightarrow> fl \<Rightarrow> ellipse \<Rightarrow> bool \<Rightarrow> fl \<Rightarrow> fl \<times> fl \<Rightarrow> fl \<times> csv" where
  "WritePupilometry pupil_out t ellipse blink art_power pglint =
     (case ellipse of ((x0, y0), (bb, aa), phi_b_deg) \<Rightarrow>
        let area = PupilArea ellipse;
            (px, py) = pglint
        in (area,
            pupil_out @ [[fmt_f 3 t, fmt_f 1 area, fmt_f 1 x0, fmt_f 1 y0, fl_of_bool blink,
                          fmt_f 3 art_power, fmt_f 3 px, fmt_f 3 py, NaN]]))"

section \<open>Images, rectangles and the libraries\<close>

text \<open>
  A 2D array is the list of its rows. An image holds \<open>uint8\<close> pixel values, a label
  image holds component labels; both are arrays of naturals. A detector rectangle is
  the row \<open>(x, y, w, h)\<close> of integers that the cascade returns.
\<close>

type_synonym image = "nat list list"

type_synonym rect = "int \<times> int \<times> int \<times> int"

type_synonym roi_rect = "(fl \<times> fl) \<times> (fl \<times> fl)"

definition shape :: "'a list list \<Rightarrow> nat \<times> nat" where
  "shape a = (case a of [] \<Rightarrow> (0, 0) | r # _ \<Rightarrow> (length a, length r))"

datatype morph = MORPH_OPEN | MORPH_DILATE

text \<open>
  The functions of OpenCV, numpy, scipy and scikit-image that the program calls, and
  the two functions of the package whose modules are not part of the sources at hand
  (\<open>fitellipse.FitEllipse_RANSAC\<close>, \<open>improc.RobustRescale\<close>), are parameters: a
  value of this record is one behaviour of them. Each may raise. \<open>kmeans\<close> draws its
  initial centroids at random; a value of the record fixes one outcome.
\<close>

record lib =
  detectMultiScale :: "image \<Rightarrow> int \<Rightarrow> real option \<Rightarrow> pyerr + rect list"
  percentile :: "image \<Rightarrow> real \<Rightarrow> pyerr + real"
  getStructuringElement :: "nat \<Rightarrow> nat \<Rightarrow> image"
  morphologyEx :: "image \<Rightarrow> morph \<Rightarrow> image \<Rightarrow> pyerr + image"
  inpaint :: "image \<Rightarrow> image \<Rightarrow> nat \<Rightarrow> pyerr + image"
  ip_RobustRescale :: "image \<Rightarrow> real \<times> real \<Rightarrow> pyerr + image"
  rescale_intensity :: "image \<Rightarrow> real \<times> real \<Rightarrow> pyerr + image"
  threshold :: "image \<Rightarrow> nat \<Rightarrow> nat \<Rightarrow> pyerr + (real \<times> image)"
  whiten :: "nat list \<Rightarrow> pyerr + real list"
  kmeans :: "real list \<Rightarrow> nat \<Rightarrow> pyerr + (real list \<times> real)"
  vq :: "real list \<Rightarrow> real list \<Rightarrow> pyerr + (nat list \<times> real list)"
  label :: "image \<Rightarrow> pyerr + (image \<times> nat)"
  Canny :: "image \<Rightarrow> nat \<Rightarrow> nat \<Rightarrow> pyerr + image"
  FitEllipse_RANSAC :: "nat list list \<Rightarrow> image \<Rightarrow> pyerr + ellipse"
  medfilt :: "fl list \<Rightarrow> int \<Rightarrow> pyerr + fl list"
  gaussian_filter1d :: "fl list \<Rightarrow> real \<Rightarrow> pyerr + fl list"

text \<open>The options that the program reads from its configuration object.\<close>

record cfg =
  LBP_minneighbors :: int
  LBP_scalefactor :: real
  PUPILSEG_method :: string
  PUPILSEG_percmin :: real
  PUPILSEG_percmax :: real

subsection \<open>Array operations of numpy\<close>

text \<open>
  A slice \<open>xs[i:j]\<close>: a negative bound counts from the end, and bounds are clipped to
  the length.
\<close>

definition py_slice :: "int \<Rightarrow> int \<Rightarrow> 'a list \<Rightarrow> 'a list" where
  "py_slice i j xs =
     (let n = int (length xs);
          lo = (if i < 0 then max 0 (i + n) else min i n);
          hi = (if j < 0 then max 0 (j + n) else min j n)
      in take (nat (hi - lo)) (drop (nat lo) xs))"

text \<open>\<open>frame[y0:y1, x0:x1]\<close>.\<close>

definition crop :: "'a list list \<Rightarrow> int \<Rightarrow> int \<Rightarrow> int \<Rightarrow> int \<Rightarrow> 'a list list" where
  "crop frame y0 y1 x0 x1 = map (py_slice x0 x1) (py_slice y0 y1 frame)"

text \<open>\<open>a[i, :]\<close> for a row index that is not negative.\<close>

definition row_at :: "'a list \<Rightarrow> nat \<Rightarrow> pyerr + 'a" where
  "row_at a i = (if i < length a then Inr (a ! i) else Inl IndexError)"

text \<open>
  \<open>np.sqrt\<close> of an integer: not-a-number below zero.
\<close>

definition np_sqrt :: "int \<Rightarrow> fl" where
  "np_sqrt v = (if v < 0 then NaN else Fin (sqrt (real_of_int v)))"

text \<open>
  The comparison \<open>x <= y\<close> of two floats; false when either is not-a-number.
\<close>

fun fl_le :: "fl \<Rightarrow> fl \<Rightarrow> bool" where
  "fl_le NaN _ = False"
| "fl_le _ NaN = False"
| "fl_le NInf _ = True"
| "fl_le _ PInf = True"
| "fl_le (Fin a) (Fin b) = (a \<le> b)"
| "fl_le _ _ = False"

text \<open>
  \<open>argmax\<close> of a float array, as numpy scans it: the running maximum is replaced by
  an element that is not \<open><=\<close> it, and the scan stops at a not-a-number. An empty
  array raises.
\<close>

fun argmax_scan :: "fl \<Rightarrow> nat \<Rightarrow> nat \<Rightarrow> fl list \<Rightarrow> nat" where
  "argmax_scan mp mi i [] = mi"
| "argmax_scan mp mi i (x # xs) =
     (if mp = NaN then mi
      else if fl_le x mp then argmax_scan mp mi (Suc i) xs
      else argmax_scan x i (Suc i) xs)"

definition argmax :: "fl list \<Rightarrow> pyerr + nat" where
  "argmax xs = (case xs of [] \<Rightarrow> Inl ValueError | x # rest \<Rightarrow> Inr (argmax_scan x 0 1 rest))"

text \<open>\<open>argmin\<close> of an array of finite numbers: the first index of the least element.\<close>

fun argmin_scan :: "real \<Rightarrow> nat \<Rightarrow> nat \<Rightarrow> real list \<Rightarrow> nat" where
  "argmin_scan mp mi i [] = mi"
| "argmin_scan mp mi i (x # xs) =
     (if mp \<le> x then argmin_scan mp mi (Suc i) xs else argmin_scan x i (Suc i) xs)"

definition argmin :: "real list \<Rightarrow> pyerr + nat" where
  "argmin xs = (case xs of [] \<Rightarrow> Inl ValueError | x # rest \<Rightarrow> Inr (argmin_scan x 0 1 rest))"

text \<open>\<open>np.reshape\<close> of a flat array to \<open>(rows, cols)\<close>.\<close>

fun chop :: "nat \<Rightarrow> nat \<Rightarrow> 'a list \<Rightarrow> 'a list list" where
  "chop 0 cols xs = []"
| "chop (Suc rows) cols xs = take cols xs # chop rows cols (drop cols xs)"

definition reshape :: "'a list \<Rightarrow> nat \<times> nat \<Rightarrow> pyerr + 'a list list" where
  "reshape xs shp =
     (case shp of (rows, cols) \<Rightarrow>
        if length xs = rows * cols then Inr (chop rows cols xs) else Inl ValueError)"

text \<open>
  \<open>np.transpose(np.nonzero(a))\<close>: one row \<open>[row, col]\<close> for every nonzero element of
  \<open>a\<close>, in row-major order. \<open>row_points r row\<close> names the rows that come from row
  \<open>r\<close> of \<open>a\<close>.
\<close>

definition row_points :: "nat \<Rightarrow> nat list \<Rightarrow> nat list list" where
  "row_points r row = map (\<lambda>(c, v). [r, c]) (filter (\<lambda>(c, v). v \<noteq> 0) (enumerate 0 row))"

definition nonzero :: "image \<Rightarrow> nat list list" where
  "nonzero a =
     concat (map (\<lambda>(r, row). map (\<lambda>(c, v). [r, c])
                                  (filter (\<lambda>(c, v). v \<noteq> 0) (enumerate 0 row)))
                 (enumerate 0 a))"

text \<open>
  \<open>a[:, js]\<close> with a list of column indices: a new array with those columns, in that
  order.
\<close>

definition get_cols :: "nat list \<Rightarrow> 'a list list \<Rightarrow> pyerr + 'a list list" where
  "get_cols js a =
     (if list_all (\<lambda>row. list_all (\<lambda>j. j < length row) js) a
      then Inr (map (\<lambda>row. map (\<lambda>j. row ! j) js) a)
      else Inl IndexError)"

text \<open>
  \<open>a[:, js] = vals\<close>: column \<open>js[k]\<close> of \<open>a\<close> takes column \<open>k\<close> of \<open>vals\<close>, for
  \<open>k = 0, 1, ...\<close> in turn.
\<close>

definition set_cols :: "nat list \<Rightarrow> 'a list list \<Rightarrow> 'a list list \<Rightarrow> pyerr + 'a list list" where
  "set_cols js a vals =
     (if \<not> list_all (\<lambda>row. list_all (\<lambda>j. j < length row) js) a then Inl IndexError
      else if length vals \<noteq> length a \<or> \<not> list_all (\<lambda>v. length v = length js) vals
      then Inl ValueError
      else Inr (map (\<lambda>(row, v). fold (\<lambda>(j, x) r. r[j := x]) (zip js v) row) (zip a vals)))"

section \<open>Boundary points and ellipse fit\<close>

text \<open>
  Line \<open>pnts[:,[0,1]] = pnts[:,[1,0]]\<close> of \<open>FitPupil\<close>: the right-hand side is
  evaluated to a new array before the assignment.
\<close>

definition swap_columns :: "nat list list \<Rightarrow> pyerr + nat list list" where
  "swap_columns pnts = bind (get_cols [1, 0] pnts) (\<lambda>rhs. set_cols [0, 1] pnts rhs)"

text \<open>
  \<open>FitPupil\<close> (the same text in \<open>mrgaze/pupilometry.py\<close> and
  \<open>geetee/pupilometry.py\<close>).
\<close>

definition FitPupil :: "lib \<Rightarrow> image \<Rightarrow> image \<Rightarrow> pyerr + ellipse" where
  "FitPupil L bw roi =
     bind (Canny L bw 0 1) (\<lambda>roi_edges.
       let pnts = nonzero roi_edges in
       bind (swap_columns pnts) (\<lambda>pnts.
         FitEllipse_RANSAC L pnts roi))"

section \<open>Segmentation\<close>

text \<open>\<open>RemoveGlint\<close>; the call in \<open>SegmentPupil\<close> uses the defaults \<open>plim=95, k=5\<close>.\<close>

definition RemoveGlint :: "lib \<Rightarrow> image \<Rightarrow> real \<Rightarrow> nat \<Rightarrow> pyerr + image" where
  "RemoveGlint L roi plim k =
     bind (percentile L roi plim) (\<lambda>imax.
       let mask = map (map (\<lambda>v. if imax \<le> real v then 1 else 0)) roi;
           kernel = getStructuringElement L k k
       in bind (morphologyEx L mask MORPH_DILATE kernel) (\<lambda>mask.
            inpaint L roi mask k))"

text \<open>
  \<open>SegmentPupil\<close> of \<open>mrgaze/pupilometry.py\<close>, in three parts. The first part is the
  function up to the morphological opening. The variable \<open>blobs\<close> is assigned in the
  \<open>otsu\<close> and in the \<open>kmeans\<close> branch only; \<open>None\<close> stands for the unassigned
  variable, and reading it raises.
\<close>

definition SegmentPupil_blobs :: "lib \<Rightarrow> image \<Rightarrow> cfg \<Rightarrow> pyerr + image" where
  "SegmentPupil_blobs L roi0 cfg =
     (let method = PUPILSEG_method cfg;
          perclims = (PUPILSEG_percmin cfg, PUPILSEG_percmax cfg)
      in bind (RemoveGlint L roi0 95 5) (\<lambda>roi.
         bind (ip_RobustRescale L roi perclims) (\<lambda>roi.
         bind (if method = ''otsu'' then
                 bind (threshold L roi 128 255) (\<lambda>(thresh, blobs). Inr (Some blobs))
               else if method = ''kmeans'' then
                 (let K = 4 in
                  bind (whiten L (concat roi)) (\<lambda>data.
                  bind (kmeans L data K) (\<lambda>(centroids, _).
                  bind (argmin centroids) (\<lambda>pupil_idx.
                  bind (vq L data centroids) (\<lambda>(idx, _).
                  bind (reshape idx (shape roi)) (\<lambda>idx.
                    Inr (Some (map (map (\<lambda>i. if i = pupil_idx then 1 else 0)) idx))))))))
               else Inr None) (\<lambda>blobs.
         let kernel = getStructuringElement L 5 5 in
         (case blobs of
            None \<Rightarrow> Inl UnboundLocalError
          | Some blobs \<Rightarrow> morphologyEx L blobs MORPH_OPEN kernel)))))"

text \<open>
  The second part, shared with \<open>geetee/pupilometry.py\<close>: the areas
  \<open>spi.sum(blobs, labels, range(n_labels+1))\<close> (entry \<open>i\<close> is the sum of the pixel
  values of \<open>blobs\<close> where the label is \<open>i\<close>; entry 0 belongs to the background), the
  first index of the largest area, and the mask of that label. \<open>max\<close> of an empty
  array and index 0 of an empty array raise.
\<close>

definition blob_areas :: "image \<Rightarrow> image \<Rightarrow> nat \<Rightarrow> nat list" where
  "blob_areas blobs labels n_labels =
     map (\<lambda>i. sum_list (map snd (filter (\<lambda>(l, v). l = i) (zip (concat labels) (concat blobs)))))
         [0 ..< n_labels + 1]"

definition largest_blob :: "image \<Rightarrow> image \<Rightarrow> nat \<Rightarrow> pyerr + image" where
  "largest_blob blobs labels n_labels =
     (let areas = blob_areas blobs labels n_labels in
      if areas = [] then Inl ValueError
      else (case find (\<lambda>i. areas ! i = Max (set areas)) [0 ..< length areas] of
              None \<Rightarrow> Inl IndexError
            | Some pupil_label \<Rightarrow>
                Inr (map (map (\<lambda>l. if l = pupil_label then 1 else 0)) labels)))"

definition SegmentPupil :: "lib \<Rightarrow> image \<Rightarrow> cfg \<Rightarrow> pyerr + image" where
  "SegmentPupil L roi cfg =
     bind (SegmentPupil_blobs L roi cfg) (\<lambda>blobs.
     bind (label L blobs) (\<lambda>(labels, n_labels).
       largest_blob blobs labels n_labels))"

text \<open>
  \<open>RobustRescale\<close> and \<open>SegmentPupil\<close> of \<open>geetee/pupilometry.py\<close>; the latter
  is split at the same place, after the morphological opening.
\<close>

definition gt_RobustRescale :: "lib \<Rightarrow> image \<Rightarrow> real \<times> real \<Rightarrow> pyerr + image" where
  "gt_RobustRescale L gray perc_range =
     bind (percentile L gray (fst perc_range)) (\<lambda>pA.
     bind (percentile L gray (snd perc_range)) (\<lambda>pB.
       rescale_intensity L gray (pA, pB)))"

definition gt_SegmentPupil_blobs :: "lib \<Rightarrow> image \<Rightarrow> pyerr + image" where
  "gt_SegmentPupil_blobs L roi0 =
     bind (gt_RobustRescale L roi0 (5, 50)) (\<lambda>roi.
     bind (threshold L roi 128 255) (\<lambda>(thresh, blobs).
     let kernel = getStructuringElement L 5 5 in
     morphologyEx L blobs MORPH_OPEN kernel))"

definition gt_SegmentPupil :: "lib \<Rightarrow> image \<Rightarrow> pyerr + image" where
  "gt_SegmentPupil L roi =
     bind (gt_SegmentPupil_blobs L roi) (\<lambda>blobs.
     bind (label L blobs) (\<lambda>(labels, n_labels).
       largest_blob blobs labels n_labels))"

text \<open>
  For the statements about the selected component: the pixel area of the component
  with label \<open>i\<close> is the number of pixels of the label image that hold \<open>i\<close>.
\<close>

definition component_size :: "image \<Rightarrow> nat \<Rightarrow> nat" where
  "component_size labels i = count_list (concat labels) i"

section \<open>The pupilometry engine\<close>


definition nan_ellipse :: ellipse where
  "nan_ellipse = ((NaN, NaN), (NaN, NaN), NaN)"

definition nan_rect :: roi_rect where
  "nan_rect = ((NaN, NaN), (NaN, NaN))"

definition fl_of_int :: "int \<Rightarrow> fl" where
  "fl_of_int i = Fin (real_of_int i)"

text \<open>
  \<open>PupilometryEngine\<close> of \<open>mrgaze/pupilometry.py\<close>. The integer corners of the ROI
  rectangle are held as numbers of type \<open>fl\<close>, since the blink branch puts
  not-a-number in the same fields. The product \<open>w * h\<close> is taken over the integers:
  the sides of a rectangle inside a frame are far below the range of the array's
  element type.
\<close>

definition PupilometryEngine :: "lib \<Rightarrow> image \<Rightarrow> cfg \<Rightarrow> pyerr + (ellipse \<times> roi_rect \<times> bool)" where
  "PupilometryEngine L frame cfg =
     (let min_neighbors = LBP_minneighbors cfg;
          scale_factor = LBP_scalefactor cfg
      in bind (detectMultiScale L frame min_neighbors (Some scale_factor)) (\<lambda>pupils.
         let n_pupils = length pupils in
         if n_pupils > 0 then
           (let blink = False;
                sizes = map (\<lambda>(x, y, w, h). np_sqrt (w * h)) pupils
            in bind (argmax sizes) (\<lambda>best_pupil.
               bind (row_at pupils best_pupil) (\<lambda>(x, y, w, h).
               let x0 = x; x1 = x + w; y0 = y; y1 = y + h;
                   roi_rect = ((fl_of_int x0, fl_of_int y0), (fl_of_int x1, fl_of_int y1));
                   pupil_roi = crop frame y0 y1 x0 x1
               in bind (SegmentPupil L pupil_roi cfg) (\<lambda>pupil_bw.
                  bind (FitPupil L pupil_bw pupil_roi) (\<lambda>el_roi.
                  let el = ((fl_add (fst (fst el_roi)) (fl_of_int x0),
                             fl_add (snd (fst el_roi)) (fl_of_int y0)),
                            fst (snd el_roi), snd (snd el_roi))
                  in Inr (el, roi_rect, blink))))))
         else
           (let blink = True;
                el = nan_ellipse;
                roi_rect = nan_rect
            in Inr (el, roi_rect, blink))))"

text \<open>
  \<open>PupilometryEngine\<close> of \<open>geetee/pupilometry.py\<close>: the detector is called with
  \<open>minNeighbors = 40\<close> and no scale factor, and the first rectangle is taken.
\<close>

definition gt_PupilometryEngine :: "lib \<Rightarrow> image \<Rightarrow> pyerr + (ellipse \<times> roi_rect \<times> bool)" where
  "gt_PupilometryEngine L img =
     bind (detectMultiScale L img 40 None) (\<lambda>pupils.
     let n_pupils = length pupils in
     if n_pupils > 0 then
       (let blink = False
        in bind (row_at pupils 0) (\<lambda>(x, y, w, h).
           let x0 = x; x1 = x + w; y0 = y; y1 = y + h;
               roi_rect = ((fl_of_int x0, fl_of_int y0), (fl_of_int x1, fl_of_int y1));
               pupil_roi = crop img y0 y1 x0 x1
           in bind (gt_SegmentPupil L pupil_roi) (\<lambda>pupil_bw.
              bind (FitPupil L pupil_bw pupil_roi) (\<lambda>el_roi.
              let el = ((fl_add (fst (fst el_roi)) (fl_of_int x0),
                         fl_add (snd (fst el_roi)) (fl_of_int y0)),
                        fst (snd el_roi), snd (snd el_roi))
              in Inr (el, roi_rect, blink)))))
     else
       (let blink = True;
            el = nan_ellipse;
            roi_rect = nan_rect
        in Inr (el, roi_rect, blink)))"

section \<open>Files, arrays in memory and temporal filtering\<close>

text \<open>
  A numpy array read from a file is one-dimensional or two-dimensional. Arrays live in
  a heap and are named by their address (the index in the heap), so that an assignment
  to a column of one array is seen through every name of that array and through no
  other. The world holds the CSV files by path, the lines printed so far and the heap.
\<close>

datatype ndarray = A1 "fl list" | A2 "fl list list"

record world =
  files :: "string \<Rightarrow> csv option"
  stdout :: "string list"
  heap :: "ndarray list"

type_synonym 'a prog = "world \<Rightarrow> (pyerr + 'a) \<times> world"

definition ret :: "'a \<Rightarrow> 'a prog" where
  "ret v = (\<lambda>w. (Inr v, w))"

definition pure :: "pyerr + 'a \<Rightarrow> 'a prog" where
  "pure m = (\<lambda>w. (m, w))"

text \<open>An exception ends the run and leaves the world as it is at that point.\<close>

definition bindS :: "'a prog \<Rightarrow> ('a \<Rightarrow> 'b prog) \<Rightarrow> 'b prog" where
  "bindS m f = (\<lambda>w. case m w of (Inl e, w') \<Rightarrow> (Inl e, w') | (Inr v, w') \<Rightarrow> f v w')"

definition print :: "string \<Rightarrow> unit prog" where
  "print line = (\<lambda>w. (Inr (), w\<lparr>stdout := stdout w @ [line]\<rparr>))"

definition isfile :: "world \<Rightarrow> string \<Rightarrow> bool" where
  "isfile w path = (files w path \<noteq> None)"

definition alloc :: "ndarray \<Rightarrow> nat prog" where
  "alloc a = (\<lambda>w. (Inr (length (heap w)), w\<lparr>heap := heap w @ [a]\<rparr>))"

definition load :: "nat \<Rightarrow> ndarray prog" where
  "load addr = (\<lambda>w. (if addr < length (heap w) then Inr (heap w ! addr)
                     else Inl (LibraryError ''no such array''), w))"

definition store :: "nat \<Rightarrow> ndarray \<Rightarrow> unit prog" where
  "store addr a = (\<lambda>w. (if addr < length (heap w) then Inr ()
                        else Inl (LibraryError ''no such array''),
                        w\<lparr>heap := (heap w)[addr := a]\<rparr>))"

text \<open>
  \<open>np.genfromtxt(path, delimiter=',')\<close> on the lines of a file: no line gives an empty
  one-dimensional array, one line a one-dimensional array of its fields, several lines
  a two-dimensional array, and lines of different numbers of fields raise.
\<close>

definition genfromtxt :: "csv \<Rightarrow> pyerr + ndarray" where
  "genfromtxt rows =
     (case rows of
        [] \<Rightarrow> Inr (A1 [])
      | [r] \<Rightarrow> Inr (A1 r)
      | r # _ \<Rightarrow> if list_all (\<lambda>r'. length r' = length r) rows then Inr (A2 rows)
                 else Inl ValueError)"

definition ReadPupilometry :: "string \<Rightarrow> nat prog" where
  "ReadPupilometry pupils_csv =
     (\<lambda>w. case files w pupils_csv of
             None \<Rightarrow> (Inl (LibraryError ''IOError''), w)
           | Some rows \<Rightarrow> bindS (pure (genfromtxt rows)) alloc w)"

text \<open>\<open>p[i, j]\<close> with indices that are not negative.\<close>

definition elem2 :: "ndarray \<Rightarrow> nat \<Rightarrow> nat \<Rightarrow> pyerr + fl" where
  "elem2 a i j =
     (case a of
        A1 _ \<Rightarrow> Inl IndexError
      | A2 rows \<Rightarrow> if i < length rows \<and> j < length (rows ! i) then Inr (rows ! i ! j)
                   else Inl IndexError)"

definition index2 :: "nat \<Rightarrow> nat \<Rightarrow> nat \<Rightarrow> fl prog" where
  "index2 p i j = bindS (load p) (\<lambda>a. pure (elem2 a i j))"

text \<open>\<open>p[:, j]\<close> read as a value.\<close>

definition column :: "ndarray \<Rightarrow> nat \<Rightarrow> pyerr + fl list" where
  "column a j =
     (case a of
        A1 _ \<Rightarrow> Inl IndexError
      | A2 rows \<Rightarrow> if list_all (\<lambda>r. j < length r) rows then Inr (map (\<lambda>r. r ! j) rows)
                   else Inl IndexError)"

text \<open>
  \<open>p[:, j] = v\<close>: \<open>v\<close> has one element for each row, or a single element that is
  broadcast.
\<close>

definition put_column :: "fl list list \<Rightarrow> nat \<Rightarrow> fl list \<Rightarrow> fl list list" where
  "put_column rows j v = map (\<lambda>(r, x). r[j := x]) (zip rows v)"

definition with_column :: "ndarray \<Rightarrow> nat \<Rightarrow> fl list \<Rightarrow> pyerr + ndarray" where
  "with_column a j v =
     (case a of
        A1 _ \<Rightarrow> Inl IndexError
      | A2 rows \<Rightarrow>
          if \<not> list_all (\<lambda>r. j < length r) rows then Inl IndexError
          else if length v = length rows then Inr (A2 (put_column rows j v))
          else (case v of [x] \<Rightarrow> Inr (A2 (map (\<lambda>r. r[j := x]) rows)) | _ \<Rightarrow> Inl ValueError))"

definition get_col :: "nat \<Rightarrow> nat \<Rightarrow> fl list prog" where
  "get_col p j = bindS (load p) (\<lambda>a. pure (column a j))"

definition set_col :: "nat \<Rightarrow> nat \<Rightarrow> fl list \<Rightarrow> unit prog" where
  "set_col p j v = bindS (load p) (\<lambda>a. bindS (pure (with_column a j v)) (store p))"

text \<open>\<open>p.copy()\<close>: a new array with the same elements.\<close>

definition copy :: "nat \<Rightarrow> nat prog" where
  "copy p = bindS (load p) alloc"

text \<open>
  \<open>np.savetxt(path, a, fmt='%.6f', delimiter=',')\<close>: one line for each row (for each
  element of a one-dimensional array), every element written with six decimal places;
  the file is created or replaced.
\<close>

definition savetxt :: "string \<Rightarrow> nat \<Rightarrow> unit prog" where
  "savetxt path p =
     bindS (load p) (\<lambda>a w.
       (Inr (), w\<lparr>files := (files w)(path \<mapsto>
                   (case a of A1 xs \<Rightarrow> map (\<lambda>x. [fmt_f 6 x]) xs
                            | A2 rows \<Rightarrow> map (map (fmt_f 6)) rows))\<rparr>))"

text \<open>
  Modelled from the spec: \<open>utils._forceodd\<close>, which \<open>FilterPupilometry\<close> calls, is
  not part of the sources at hand. The spec gives the kernel width as the time span
  divided by the sampling interval, "rounded up to the nearest odd window length": the
  least odd integer that is not below the argument. The spec is silent on an argument
  that is not finite; no window length exists for it, and the conversion of such a
  value to an integer raises in Python.
\<close>

definition forceodd :: "fl \<Rightarrow> pyerr + int" where
  "forceodd x =
     (case x of
        Fin v \<Rightarrow> (let n = \<lceil>v\<rceil> in Inr (if odd n then n else n + 1))
      | NaN \<Rightarrow> Inl ValueError
      | _ \<Rightarrow> Inl OverflowError)"

text \<open>
  A statement \<open>dst[:,j] = f(src[:,j])\<close> of \<open>FilterPupilometry\<close>: the column is read,
  the filter makes a new array, and the result is assigned to column \<open>j\<close> of \<open>dst\<close>.
\<close>

definition filter_column :: "nat \<Rightarrow> nat \<Rightarrow> (fl list \<Rightarrow> pyerr + fl list) \<Rightarrow> nat \<Rightarrow> unit prog" where
  "filter_column dst j f src =
     bindS (get_col src j) (\<lambda>c. bindS (pure (f c)) (\<lambda>m. set_col dst j m))"

text \<open>\<open>FilterPupilometry\<close> of \<open>mrgaze/pupilometry.py\<close>.\<close>

definition FilterPupilometry :: "lib \<Rightarrow> string \<Rightarrow> string \<Rightarrow> bool prog" where
  "FilterPupilometry L pupils_raw_csv pupils_filt_csv =
     (\<lambda>w. if \<not> isfile w pupils_raw_csv then
             bindS (print ''* Raw pupilometry CSV file missing - returning'')
                   (\<lambda>_. ret False) w
           else
             bindS (ReadPupilometry pupils_raw_csv) (\<lambda>p.
             bindS (index2 p 1 0) (\<lambda>t1.
             bindS (index2 p 0 0) (\<lambda>t0.
             let dt = fl_sub t1 t0 in
             bindS (pure (forceodd (fl_div (Fin 0.25) dt))) (\<lambda>k_area.
             let k_px = 3; k_py = 3 in
             bindS (pure (forceodd (fl_div (Fin 0.25) dt))) (\<lambda>k_blink.
             bindS (pure (forceodd (fl_div (Fin 1.0) dt))) (\<lambda>k_art.
             bindS (copy p) (\<lambda>pf.
             bindS (filter_column pf 1 (\<lambda>c. medfilt L c k_area) p) (\<lambda>_.
             bindS (filter_column pf 2 (\<lambda>c. medfilt L c k_px) p) (\<lambda>_.
             bindS (filter_column pf 3 (\<lambda>c. medfilt L c k_py) p) (\<lambda>_.
             bindS (filter_column pf 4 (\<lambda>c. medfilt L c k_blink) p) (\<lambda>_.
             bindS (filter_column pf 5 (\<lambda>c. gaussian_filter1d L c 1.0) p) (\<lambda>_.
             bindS (filter_column pf 5 (\<lambda>c. medfilt L c k_art) pf) (\<lambda>_.
             bindS (savetxt pupils_filt_csv pf) (\<lambda>_.
             ret True)))))))))))))) w)"

text \<open>\<open>os.path.join\<close> of two components on a POSIX system.\<close>

definition os_path_join :: "string \<Rightarrow> string \<Rightarrow> string" where
  "os_path_join a b =
     (if (case b of [] \<Rightarrow> False | c # _ \<Rightarrow> c = CHR ''/'') then b
      else if a = [] \<or> last a = CHR ''/'' then a @ b
      else a @ ''/'' @ b)"

text \<open>
  The part of \<open>VideoPupilometry\<close> after the frame loop, with the paths as the function
  builds them: the filter is called, its result is dropped, and the function returns
  \<open>True\<close>. There is no handler, so an exception of the filter leaves the function.
\<close>

definition VideoPupilometry_filter :: "lib \<Rightarrow> string \<Rightarrow> string \<Rightarrow> string \<Rightarrow> bool prog" where
  "VideoPupilometry_filter L data_dir subj_sess v_stub =
     (let ss_dir = os_path_join data_dir subj_sess;
          res_dir = os_path_join ss_dir ''results'';
          pupils_raw_csv = os_path_join res_dir (v_stub @ ''_pupils_raw.csv'');
          pupils_filt_csv = os_path_join res_dir (v_stub @ ''_pupils_filt.csv'')
      in bindS (print ''  Temporally filtering pupilometry timeseries'') (\<lambda>_.
         bindS (FilterPupilometry L pupils_raw_csv pupils_filt_csv) (\<lambda>_.
         ret True)))"

section \<open>A stand-in for the libraries\<close>

text \<open>
  One simple behaviour of the library functions, used to run the program on small
  inputs: the detector reports two rectangles in any frame that has a row, images pass
  unchanged through the morphology, inpainting and rescaling steps, the inverse
  threshold is fixed at 128, every pixel of the mask counts as an edge pixel, all
  nonzero pixels form one component, and the temporal filters accept an odd positive
  kernel and return their input.
\<close>

definition stub_lib :: lib where
  "stub_lib =
     \<lparr> detectMultiScale = (\<lambda>img mn sf. Inr (if img = [] then [] else [(1, 0, 1, 1), (0, 1, 2, 2)])),
       percentile = (\<lambda>img q. Inr 255),
       getStructuringElement = (\<lambda>kx ky. replicate ky (replicate kx 1)),
       morphologyEx = (\<lambda>img m kernel. Inr img),
       inpaint = (\<lambda>img mask k. Inr img),
       ip_RobustRescale = (\<lambda>img lims. Inr img),
       rescale_intensity = (\<lambda>img lims. Inr img),
       threshold = (\<lambda>img t mx. Inr (128, map (map (\<lambda>v. if v \<le> 128 then mx else 0)) img)),
       whiten = (\<lambda>xs. Inr (map real xs)),
       kmeans = (\<lambda>data k. Inr ([0, 64, 128, 192], 0)),
       vq = (\<lambda>data cs. Inr (map (\<lambda>x. if x < 32 then 0 else 1) data, [])),
       label = (\<lambda>b. Inr (map (map (\<lambda>v. if v = 0 then 0 else 1)) b,
                          if list_ex (list_ex (\<lambda>v. v \<noteq> 0)) b then 1 else 0)),
       Canny = (\<lambda>img lo hi. Inr img),
       FitEllipse_RANSAC = (\<lambda>pnts roi. Inr ((Fin 1, Fin 1), (Fin 2, Fin 3), Fin 0)),
       medfilt = (\<lambda>xs k. if odd k \<and> 1 \<le> k then Inr xs else Inl ValueError),
       gaussian_filter1d = (\<lambda>xs sigma. Inr xs) \<rparr>"

definition stub_cfg :: cfg where
  "stub_cfg =
     \<lparr> LBP_minneighbors = 40, LBP_scalefactor = 1.1, PUPILSEG_method = ''otsu'',
       PUPILSEG_percmin = 0, PUPILSEG_percmax = 50 \<rparr>"

section \<open>Properties\<close>

subsection \<open>Sequencing and the two engines\<close>

lemma bind_Inr_iff: "(bind m f = Inr v) = (\<exists>a. m = Inr a \<and> f a = Inr v)"
  by (cases m) (simp_all add: bind_def)

lemma bind_Inr [simp]: "bind (Inr a) f = f a"
  by (simp add: bind_def)

lemma bind_Inl [simp]: "bind (Inl e) f = Inl e"
  by (simp add: bind_def)

lemma engine_no_candidates:
  "detectMultiScale L frame (LBP_minneighbors cfg) (Some (LBP_scalefactor cfg)) = Inr []
   \<Longrightarrow> PupilometryEngine L frame cfg = Inr (nan_ellipse, nan_rect, True)"
  by (simp add: PupilometryEngine_def)

lemma engine_candidates:
  assumes "detectMultiScale L frame (LBP_minneighbors cfg) (Some (LBP_scalefactor cfg)) = Inr pupils"
    and "pupils \<noteq> []"
  shows "PupilometryEngine L frame cfg =
     bind (argmax (map (\<lambda>(x, y, w, h). np_sqrt (w * h)) pupils)) (\<lambda>best_pupil.
     bind (row_at pupils best_pupil) (\<lambda>(x, y, w, h).
     bind (SegmentPupil L (crop frame y (y + h) x (x + w)) cfg) (\<lambda>pupil_bw.
     bind (FitPupil L pupil_bw (crop frame y (y + h) x (x + w))) (\<lambda>el_roi.
       Inr (((fl_add (fst (fst el_roi)) (fl_of_int x), fl_add (snd (fst el_roi)) (fl_of_int y)),
             fst (snd el_roi), snd (snd el_roi)),
            ((fl_of_int x, fl_of_int y), (fl_of_int (x + w), fl_of_int (y + h))),
            False)))))"
  using assms by (simp add: PupilometryEngine_def Let_def)

lemma engine_blink_false:
  assumes "detectMultiScale L frame (LBP_minneighbors cfg) (Some (LBP_scalefactor cfg)) = Inr pupils"
    and "pupils \<noteq> []"
    and "PupilometryEngine L frame cfg = Inr (el, rr, blink)"
  shows "\<not> blink"
  using assms(3) unfolding engine_candidates[OF assms(1,2)]
  by (auto simp: bind_Inr_iff split: prod.splits)

lemma gt_engine_no_candidates:
  "detectMultiScale L img 40 None = Inr []
   \<Longrightarrow> gt_PupilometryEngine L img = Inr (nan_ellipse, nan_rect, True)"
  by (simp add: gt_PupilometryEngine_def)

lemma gt_engine_candidates:
  assumes "detectMultiScale L img 40 None = Inr pupils"
    and "pupils \<noteq> []"
  shows "gt_PupilometryEngine L img =
     bind (row_at pupils 0) (\<lambda>(x, y, w, h).
     bind (gt_SegmentPupil L (crop img y (y + h) x (x + w))) (\<lambda>pupil_bw.
     bind (FitPupil L pupil_bw (crop img y (y + h) x (x + w))) (\<lambda>el_roi.
       Inr (((fl_add (fst (fst el_roi)) (fl_of_int x), fl_add (snd (fst el_roi)) (fl_of_int y)),
             fst (snd el_roi), snd (snd el_roi)),
            ((fl_of_int x, fl_of_int y), (fl_of_int (x + w), fl_of_int (y + h))),
            False))))"
  using assms by (simp add: gt_PupilometryEngine_def Let_def)

lemma gt_engine_blink_false:
  assumes "detectMultiScale L img 40 None = Inr pupils"
    and "pupils \<noteq> []"
    and "gt_PupilometryEngine L img = Inr (el, rr, blink)"
  shows "\<not> blink"
  using assms(3) unfolding gt_engine_candidates[OF assms(1,2)]
  by (auto simp: bind_Inr_iff split: prod.splits)

lemma engine_returns_detects:
  "PupilometryEngine L frame cfg = Inr r \<Longrightarrow>
   \<exists>pupils. detectMultiScale L frame (LBP_minneighbors cfg) (Some (LBP_scalefactor cfg)) = Inr pupils"
  by (cases "detectMultiScale L frame (LBP_minneighbors cfg) (Some (LBP_scalefactor cfg))")
     (simp_all add: PupilometryEngine_def)

lemma gt_engine_returns_detects:
  "gt_PupilometryEngine L img = Inr r \<Longrightarrow> \<exists>pupils. detectMultiScale L img 40 None = Inr pupils"
  by (cases "detectMultiScale L img 40 None") (simp_all add: gt_PupilometryEngine_def)

subsection \<open>Boundary points\<close>

lemma set_row_points:
  "set (row_points r row) = {[r, c] | c. c < length row \<and> row ! c \<noteq> 0}"
  by (auto simp: row_points_def in_set_enumerate_eq image_iff)

lemma distinct_row_points: "distinct (row_points r row)"
  unfolding row_points_def
  by (auto simp: distinct_map inj_on_def in_set_enumerate_eq intro!: distinct_filter)

lemma nonzero_from:
  "concat (map (\<lambda>(r, row). row_points r row) (enumerate n a)) = pts \<Longrightarrow>
   distinct pts \<and>
   set pts = {[r, c] | r c. n \<le> r \<and> r < n + length a \<and> c < length (a ! (r - n)) \<and> a ! (r - n) ! c \<noteq> 0}"
proof (induction a arbitrary: n pts)
  case Nil
  then show ?case by auto
next
  case (Cons row a)
  define rest where "rest = concat (map (\<lambda>(r, row). row_points r row) (enumerate (Suc n) a))"
  have pts: "pts = row_points n row @ rest"
    using Cons.prems by (simp add: rest_def)
  have ih: "distinct rest"
    "set rest = {[r, c] | r c. Suc n \<le> r \<and> r < Suc n + length a \<and> c < length (a ! (r - Suc n)) \<and> a ! (r - Suc n) ! c \<noteq> 0}"
    using Cons.IH[of "Suc n" rest] by (simp_all add: rest_def)
  have disj: "set (row_points n row) \<inter> set rest = {}"
    by (auto simp: set_row_points ih(2))
  have d: "distinct pts"
    by (simp add: pts distinct_row_points ih(1) disj)
  have s: "set pts = {[r, c] | r c. n \<le> r \<and> r < n + length (row # a) \<and> c < length ((row # a) ! (r - n)) \<and> (row # a) ! (r - n) ! c \<noteq> 0}"
    (is "_ = ?R")
  proof (rule set_eqI)
    fix p
    show "p \<in> set pts \<longleftrightarrow> p \<in> ?R"
    proof
      assume "p \<in> set pts"
      then consider "p \<in> set (row_points n row)" | "p \<in> set rest"
        by (auto simp: pts)
      then show "p \<in> ?R"
      proof cases
        case 1
        then show ?thesis by (auto simp: set_row_points)
      next
        case 2
        then obtain r c where rc: "p = [r, c]" "Suc n \<le> r" "r < Suc n + length a"
          "c < length (a ! (r - Suc n))" "a ! (r - Suc n) ! c \<noteq> 0"
          by (auto simp: ih(2))
        from rc(2) have "(row # a) ! (r - n) = a ! (r - Suc n)"
          by (simp add: nth_Cons')
        with rc show ?thesis by auto
      qed
    next
      assume "p \<in> ?R"
      then obtain r c where rc: "p = [r, c]" "n \<le> r" "r < n + length (row # a)"
        "c < length ((row # a) ! (r - n))" "(row # a) ! (r - n) ! c \<noteq> 0"
        by auto
      show "p \<in> set pts"
      proof (cases "r = n")
        case True
        with rc show ?thesis by (auto simp: pts set_row_points)
      next
        case False
        with rc(2) have gt: "Suc n \<le> r" by simp
        then have "(row # a) ! (r - n) = a ! (r - Suc n)"
          by (simp add: nth_Cons')
        with rc gt have "p \<in> set rest"
          by (auto simp: ih(2))
        then show ?thesis by (simp add: pts)
      qed
    qed
  qed
  from d s show ?case by simp
qed

lemma nonzero_row_points: "nonzero a = concat (map (\<lambda>(r, row). row_points r row) (enumerate 0 a))"
  by (simp add: nonzero_def row_points_def)

lemma distinct_nonzero: "distinct (nonzero a)"
  using nonzero_from[of 0 a "nonzero a"] by (simp add: nonzero_row_points)

lemma set_nonzero:
  "set (nonzero a) = {[r, c] | r c. r < length a \<and> c < length (a ! r) \<and> a ! r ! c \<noteq> 0}"
  using nonzero_from[of 0 a "nonzero a"] by (simp add: nonzero_row_points)

lemma nonzero_pairs: "p \<in> set (nonzero a) \<Longrightarrow> \<exists>r c. p = [r, c]"
  by (auto simp: set_nonzero)

lemma get_cols_pairs:
  assumes "\<forall>p\<in>set pnts. length p = 2"
  shows "get_cols [1, 0] pnts = Inr (map (\<lambda>p. [p ! 1, p ! 0]) pnts)"
  using assms by (auto simp: get_cols_def list_all_iff)

lemma set_cols_pairs:
  assumes "\<forall>p\<in>set pnts. length p = 2"
  shows "set_cols [0, 1] pnts (map (\<lambda>p. [p ! 1, p ! 0]) pnts) = Inr (map (\<lambda>p. [p ! 1, p ! 0]) pnts)"
proof -
  have upd: "fold (\<lambda>(j, x) r. r[j := x]) (zip [0, 1] [p ! 1, p ! 0]) p = [p ! 1, p ! 0]"
    if "length p = 2" for p
  proof -
    from that obtain a b where "p = [a, b]"
      by (cases p; cases "tl p") auto
    then show ?thesis by simp
  qed
  have "map (\<lambda>(row, v). fold (\<lambda>(j, x) r. r[j := x]) (zip [0, 1] v) row)
          (zip pnts (map (\<lambda>p. [p ! 1, p ! 0]) pnts)) = map (\<lambda>p. [p ! 1, p ! 0]) pnts"
    using assms
  proof (induction pnts)
    case Nil
    then show ?case by simp
  next
    case (Cons p pnts)
    then have "length p = 2" by simp
    from upd[OF this] Cons show ?case by simp
  qed
  with assms show ?thesis
    by (auto simp: set_cols_def list_all_iff)
qed

lemma swap_columns_pairs:
  assumes "\<forall>p\<in>set pnts. length p = 2"
  shows "swap_columns pnts = Inr (map (\<lambda>p. [p ! 1, p ! 0]) pnts)"
  unfolding swap_columns_def get_cols_pairs[OF assms] bind_Inr
  by (rule set_cols_pairs[OF assms])

lemma swap_columns_nonzero:
  "swap_columns (nonzero a) = Inr (map (\<lambda>p. [p ! 1, p ! 0]) (nonzero a))"
  by (rule swap_columns_pairs) (auto simp: set_nonzero)

lemma length_nonzero: "length (nonzero a) = length (filter (\<lambda>v. v \<noteq> 0) (concat a))"
proof -
  have row: "length (row_points r row) = length (filter (\<lambda>v. v \<noteq> 0) row)" for r row
  proof -
    have "length (filter (\<lambda>(c, v). v \<noteq> 0) (enumerate n row)) = length (filter (\<lambda>v. v \<noteq> 0) row)" for n
      by (induction row arbitrary: n) auto
    then show ?thesis by (simp add: row_points_def)
  qed
  have "length (concat (map (\<lambda>(r, row). row_points r row) (enumerate n a)))
        = length (filter (\<lambda>v. v \<noteq> 0) (concat a))" for n
    by (induction a arbitrary: n) (auto simp: row)
  then show ?thesis by (simp add: nonzero_row_points)
qed

subsection \<open>Runs on the stand-in library\<close>

lemma stub_detect:
  "detectMultiScale stub_lib [[0, 0, 0], [0, 0, 0], [0, 0, 0]] (LBP_minneighbors stub_cfg)
     (Some (LBP_scalefactor stub_cfg)) = Inr [(1, 0, 1, 1), (0, 1, 2, 2)]"
  by (simp add: stub_lib_def)

lemma stub_gt_detect:
  "detectMultiScale stub_lib [[0, 0, 0], [0, 0, 0], [0, 0, 0]] 40 None
     = Inr [(1, 0, 1, 1), (0, 1, 2, 2)]"
  by (simp add: stub_lib_def)

lemma stub_detect_none:
  "detectMultiScale stub_lib [] mn sf = Inr []"
  by (simp add: stub_lib_def)

lemma stub_argmax:
  "argmax (map (\<lambda>(x, y, w, h). np_sqrt (w * h)) [(1, 0, 1, 1), (0, 1, 2, 2)]) = Inr 1"
  by (simp add: argmax_def np_sqrt_def)

lemma stub_crop2: "crop [[0, 0, 0], [0, 0, 0], [0, 0, 0::nat]] 1 3 0 2 = [[0, 0], [0, 0]]"
  by (simp add: crop_def py_slice_def)

lemma stub_crop1: "crop [[0, 0, 0], [0, 0, 0], [0, 0, 0::nat]] 0 1 1 2 = [[0]]"
  by (simp add: crop_def py_slice_def)

lemma stub_blobs:
  "SegmentPupil_blobs stub_lib [[0, 0], [0, 0]] stub_cfg = Inr [[255, 255], [255, 255]]"
  by (simp add: SegmentPupil_blobs_def RemoveGlint_def stub_lib_def stub_cfg_def)

lemma stub_label: "label stub_lib [[255, 255], [255, 255]] = Inr ([[1, 1], [1, 1]], 1)"
  by (simp add: stub_lib_def)

lemma stub_areas: "blob_areas [[255, 255], [255, 255]] [[1, 1], [1, 1]] 1 = [0, 1020]"
  by (simp add: blob_areas_def)

lemma stub_largest:
  "largest_blob [[255, 255], [255, 255]] [[1, 1], [1, 1]] 1 = Inr [[1, 1], [1, 1]]"
  unfolding largest_blob_def stub_areas by simp

lemma stub_segment: "SegmentPupil stub_lib [[0, 0], [0, 0]] stub_cfg = Inr [[1, 1], [1, 1]]"
  unfolding SegmentPupil_def stub_blobs bind_Inr stub_label
  by (simp del: One_nat_def add: stub_largest)

lemma stub_gt_segment: "gt_SegmentPupil stub_lib [[0]] = Inr [[1]]"
  by (simp add: gt_SegmentPupil_def gt_SegmentPupil_blobs_def gt_RobustRescale_def stub_lib_def
      largest_blob_def blob_areas_def)

lemma stub_fit: "FitPupil stub_lib bw roi = Inr ((Fin 1, Fin 1), (Fin 2, Fin 3), Fin 0)"
  unfolding FitPupil_def
  by (simp add: stub_lib_def Let_def swap_columns_nonzero)

lemma stub_engine:
  "PupilometryEngine stub_lib [[0, 0, 0], [0, 0, 0], [0, 0, 0]] stub_cfg
     = Inr (((Fin 1, Fin 2), (Fin 2, Fin 3), Fin 0), ((Fin 0, Fin 1), (Fin 2, Fin 3)), False)"
proof -
  have ne: "[(1, 0, 1, 1), (0, 1, 2, 2)] \<noteq> ([] :: rect list)"
    by simp
  show ?thesis
    unfolding engine_candidates[OF stub_detect ne] stub_argmax bind_Inr
    by (simp del: One_nat_def add: row_at_def stub_crop2 stub_segment stub_fit fl_of_int_def)
qed

lemma stub_gt_engine:
  "gt_PupilometryEngine stub_lib [[0, 0, 0], [0, 0, 0], [0, 0, 0]]
     = Inr (((Fin 2, Fin 1), (Fin 2, Fin 3), Fin 0), ((Fin 1, Fin 0), (Fin 2, Fin 1)), False)"
proof -
  have ne: "[(1, 0, 1, 1), (0, 1, 2, 2)] \<noteq> ([] :: rect list)"
    by simp
  show ?thesis
    unfolding gt_engine_candidates[OF stub_gt_detect ne]
    by (simp del: One_nat_def add: row_at_def stub_crop1 stub_gt_segment stub_fit fl_of_int_def)
qed

subsection \<open>Selection of the ROI\<close>









subsection \<open>Blink flag\<close>

text \<open>
  Claim C2. In both engines: when the detector returns no rectangle, the engine
  returns the blink flag set, with every field of the ellipse and of the ROI rectangle
  not-a-number; and whenever the engine returns, the blink flag is set if and only
  if the detector returned no rectangle.
\<close>

theorem blink_iff_no_candidates:
  "(detectMultiScale L frame (LBP_minneighbors cfg) (Some (LBP_scalefactor cfg)) = Inr [] \<longrightarrow>
      PupilometryEngine L frame cfg
        = Inr (((NaN, NaN), (NaN, NaN), NaN), ((NaN, NaN), (NaN, NaN)), True))
   \<and> (PupilometryEngine L frame cfg = Inr (el, rr, blink) \<longrightarrow>
        (\<exists>pupils. detectMultiScale L frame (LBP_minneighbors cfg) (Some (LBP_scalefactor cfg))
                     = Inr pupils
                  \<and> blink = (pupils = [])
                  \<and> (blink \<longrightarrow> el = ((NaN, NaN), (NaN, NaN), NaN)
                                \<and> rr = ((NaN, NaN), (NaN, NaN)))))
   \<and> (detectMultiScale L frame 40 None = Inr [] \<longrightarrow>
        gt_PupilometryEngine L frame
          = Inr (((NaN, NaN), (NaN, NaN), NaN), ((NaN, NaN), (NaN, NaN)), True))
   \<and> (gt_PupilometryEngine L frame = Inr (el', rr', blink') \<longrightarrow>
        (\<exists>pupils. detectMultiScale L frame 40 None = Inr pupils
                  \<and> blink' = (pupils = [])
                  \<and> (blink' \<longrightarrow> el' = ((NaN, NaN), (NaN, NaN), NaN)
                                 \<and> rr' = ((NaN, NaN), (NaN, NaN)))))"
proof (intro conjI impI)
  assume "detectMultiScale L frame (LBP_minneighbors cfg) (Some (LBP_scalefactor cfg)) = Inr []"
  then show "PupilometryEngine L frame cfg
        = Inr (((NaN, NaN), (NaN, NaN), NaN), ((NaN, NaN), (NaN, NaN)), True)"
    by (simp add: engine_no_candidates nan_ellipse_def nan_rect_def)
next
  assume r: "PupilometryEngine L frame cfg = Inr (el, rr, blink)"
  then obtain pupils where
    d: "detectMultiScale L frame (LBP_minneighbors cfg) (Some (LBP_scalefactor cfg)) = Inr pupils"
    using engine_returns_detects by blast
  show "\<exists>pupils. detectMultiScale L frame (LBP_minneighbors cfg) (Some (LBP_scalefactor cfg))
                     = Inr pupils
                  \<and> blink = (pupils = [])
                  \<and> (blink \<longrightarrow> el = ((NaN, NaN), (NaN, NaN), NaN)
                                \<and> rr = ((NaN, NaN), (NaN, NaN)))"
  proof (cases "pupils = []")
    case True
    with d r show ?thesis
      by (simp add: engine_no_candidates nan_ellipse_def nan_rect_def)
  next
    case False
    with d r engine_blink_false show ?thesis
      by blast
  qed
next
  assume "detectMultiScale L frame 40 None = Inr []"
  then show "gt_PupilometryEngine L frame
        = Inr (((NaN, NaN), (NaN, NaN), NaN), ((NaN, NaN), (NaN, NaN)), True)"
    by (simp add: gt_engine_no_candidates nan_ellipse_def nan_rect_def)
next
  assume r: "gt_PupilometryEngine L frame = Inr (el', rr', blink')"
  then obtain pupils where d: "detectMultiScale L frame 40 None = Inr pupils"
    using gt_engine_returns_detects by blast
  show "\<exists>pupils. detectMultiScale L frame 40 None = Inr pupils
                  \<and> blink' = (pupils = [])
                  \<and> (blink' \<longrightarrow> el' = ((NaN, NaN), (NaN, NaN), NaN)
                                 \<and> rr' = ((NaN, NaN), (NaN, NaN)))"
  proof (cases "pupils = []")
    case True
    with d r show ?thesis
      by (simp add: gt_engine_no_candidates nan_ellipse_def nan_rect_def)
  next
    case False
    with d r gt_engine_blink_false show ?thesis
      by blast
  qed
qed


theorem blink_iff_no_candidates_witness:
  "PupilometryEngine stub_lib [] stub_cfg
     = Inr (((NaN, NaN), (NaN, NaN), NaN), ((NaN, NaN), (NaN, NaN)), True)
   \<and> gt_PupilometryEngine stub_lib []
     = Inr (((NaN, NaN), (NaN, NaN), NaN), ((NaN, NaN), (NaN, NaN)), True)
   \<and> (\<exists>pupils. detectMultiScale stub_lib [[0, 0, 0], [0, 0, 0], [0, 0, 0]]
                  (LBP_minneighbors stub_cfg) (Some (LBP_scalefactor stub_cfg)) = Inr pupils
               \<and> pupils \<noteq> [])
   \<and> (\<exists>pupils. detectMultiScale stub_lib [[0, 0, 0], [0, 0, 0], [0, 0, 0]] 40 None = Inr pupils
               \<and> pupils \<noteq> [])"
proof -
  note none = blink_iff_no_candidates[of stub_lib "[]" stub_cfg]
  note some = blink_iff_no_candidates[of stub_lib "[[0, 0, 0], [0, 0, 0], [0, 0, 0]]" stub_cfg
      "((Fin 1, Fin 2), (Fin 2, Fin 3), Fin 0)" "((Fin 0, Fin 1), (Fin 2, Fin 3))" False
      "((Fin 2, Fin 1), (Fin 2, Fin 3), Fin 0)" "((Fin 1, Fin 0), (Fin 2, Fin 1))" False]
  have a: "PupilometryEngine stub_lib [] stub_cfg
     = Inr (((NaN, NaN), (NaN, NaN), NaN), ((NaN, NaN), (NaN, NaN)), True)"
    by (rule none[THEN conjunct1, THEN mp]) (rule stub_detect_none)
  have b: "gt_PupilometryEngine stub_lib []
     = Inr (((NaN, NaN), (NaN, NaN), NaN), ((NaN, NaN), (NaN, NaN)), True)"
    by (rule none[THEN conjunct2, THEN conjunct2, THEN conjunct1, THEN mp])
       (rule stub_detect_none)
  from some[THEN conjunct2, THEN conjunct1, THEN mp, OF stub_engine]
  obtain ps where c: "detectMultiScale stub_lib [[0, 0, 0], [0, 0, 0], [0, 0, 0]]
        (LBP_minneighbors stub_cfg) (Some (LBP_scalefactor stub_cfg)) = Inr ps" "ps \<noteq> []"
    by blast
  from some[THEN conjunct2, THEN conjunct2, THEN conjunct2, THEN mp, OF stub_gt_engine]
  obtain qs where d: "detectMultiScale stub_lib [[0, 0, 0], [0, 0, 0], [0, 0, 0]] 40 None = Inr qs"
      "qs \<noteq> []"
    by blast
  from a b c d show ?thesis
    by blast
qed

subsection \<open>Boundary points passed to the ellipse fit\<close>

text \<open>
  Claim C8. For every edge image, the column swap of \<open>FitPupil\<close> succeeds and turns
  the row \<open>[row, col]\<close> of each edge pixel into \<open>[col, row]\<close>, position by position:
  the point list passed to the RANSAC fit has one point \<open>[col, row]\<close> for each nonzero
  pixel \<open>(row, col)\<close> of the edge image, no other point, and no point twice.
\<close>

theorem FitPupil_points_are_xy:
  "swap_columns (nonzero e) = Inr (map (\<lambda>p. [p ! 1, p ! 0]) (nonzero e))
   \<and> FitPupil L bw roi
       = bind (Canny L bw 0 1)
           (\<lambda>edges. FitEllipse_RANSAC L (map (\<lambda>p. [p ! 1, p ! 0]) (nonzero edges)) roi)
   \<and> (\<forall>x y. ([x, y] \<in> set (map (\<lambda>p. [p ! 1, p ! 0]) (nonzero e)))
             = (y < length e \<and> x < length (e ! y) \<and> e ! y ! x \<noteq> 0))
   \<and> (\<forall>q. q \<in> set (map (\<lambda>p. [p ! 1, p ! 0]) (nonzero e)) \<longrightarrow> (\<exists>x y. q = [x, y]))
   \<and> distinct (map (\<lambda>p. [p ! 1, p ! 0]) (nonzero e))
   \<and> length (map (\<lambda>p. [p ! 1, p ! 0]) (nonzero e)) = length (filter (\<lambda>v. v \<noteq> 0) (concat e))"
proof -
  let ?sw = "\<lambda>p :: nat list. [p ! 1, p ! 0]"
  have swap: "swap_columns (nonzero e) = Inr (map ?sw (nonzero e))"
    by (rule swap_columns_nonzero)
  have fit: "FitPupil L bw roi
       = bind (Canny L bw 0 1) (\<lambda>edges. FitEllipse_RANSAC L (map ?sw (nonzero edges)) roi)"
    unfolding FitPupil_def Let_def swap_columns_nonzero bind_Inr ..
  have mem: "([x, y] \<in> set (map ?sw (nonzero e)))
             = (y < length e \<and> x < length (e ! y) \<and> e ! y ! x \<noteq> 0)" for x y
  proof
    assume "[x, y] \<in> set (map ?sw (nonzero e))"
    then obtain p where p: "p \<in> set (nonzero e)" "[x, y] = ?sw p"
      by auto
    from p(1) obtain r c where rc: "p = [r, c]" "r < length e" "c < length (e ! r)"
        "e ! r ! c \<noteq> 0"
      by (auto simp: set_nonzero)
    from p(2) rc(1) have "x = c" "y = r"
      by simp_all
    with rc show "y < length e \<and> x < length (e ! y) \<and> e ! y ! x \<noteq> 0"
      by simp
  next
    assume a: "y < length e \<and> x < length (e ! y) \<and> e ! y ! x \<noteq> 0"
    then have "[y, x] \<in> set (nonzero e)"
      by (simp add: set_nonzero)
    then have "?sw [y, x] \<in> set (map ?sw (nonzero e))"
      unfolding set_map by (rule imageI)
    then show "[x, y] \<in> set (map ?sw (nonzero e))"
      by simp
  qed
  have pairs: "\<exists>x y. q = [x, y]" if "q \<in> set (map ?sw (nonzero e))" for q
    using that by auto
  have inj: "inj_on ?sw (set (nonzero e))"
  proof (rule inj_onI)
    fix p q
    assume "p \<in> set (nonzero e)" "q \<in> set (nonzero e)" and eq: "?sw p = ?sw q"
    then obtain r c r' c' where "p = [r, c]" "q = [r', c']"
      using nonzero_pairs by blast
    with eq show "p = q"
      by simp
  qed
  have dist: "distinct (map ?sw (nonzero e))"
    using inj by (simp add: distinct_map distinct_nonzero)
  have len: "length (map ?sw (nonzero e)) = length (filter (\<lambda>v. v \<noteq> 0) (concat e))"
    by (simp add: length_nonzero)
  from swap fit mem pairs dist len show ?thesis
    by blast
qed

theorem FitPupil_points_are_xy_witness:
  "swap_columns (nonzero [[0, 7], [0, 0], [5, 0]]) = Inr [[1, 0], [0, 2]]
   \<and> distinct [[1, 0], [0, 2 :: nat]]"
proof -
  have nz: "nonzero [[0, 7], [0, 0], [5, 0]] = [[0, 1], [2, 0]]"
    by (simp add: nonzero_def enumerate_eq_zip)
  note t = FitPupil_points_are_xy[of "[[0, 7], [0, 0], [5, 0]]"]
  have a: "swap_columns (nonzero [[0, 7], [0, 0], [5, 0]])
            = Inr (map (\<lambda>p. [p ! 1, p ! 0]) (nonzero [[0, 7], [0, 0], [5, 0]]))"
    by (rule t[THEN conjunct1])
  have b: "distinct (map (\<lambda>p. [p ! 1, p ! 0]) (nonzero [[0, 7], [0, 0], [5, 0]]))"
    by (rule t[THEN conjunct2, THEN conjunct2, THEN conjunct2, THEN conjunct2, THEN conjunct1])
  have m: "map (\<lambda>p. [p ! 1, p ! 0]) (nonzero [[0, 7], [0, 0], [5, 0]]) = [[1, 0], [0, 2]]"
    unfolding nz by simp
  from a b show ?thesis
    unfolding m by simp
qed

subsection \<open>Segmentation method\<close>

lemma blobs_unknown_method:
  assumes "PUPILSEG_method cfg \<noteq> ''otsu''" and "PUPILSEG_method cfg \<noteq> ''kmeans''"
  shows "SegmentPupil_blobs L roi cfg =
           bind (RemoveGlint L roi 95 5) (\<lambda>r1.
           bind (ip_RobustRescale L r1 (PUPILSEG_percmin cfg, PUPILSEG_percmax cfg)) (\<lambda>r2.
             Inl UnboundLocalError))"
  using assms by (simp add: SegmentPupil_blobs_def Let_def)

lemma bind_Inl_ex:
  assumes "\<And>v. \<exists>e. f v = (Inl e :: pyerr + 'b)"
  shows "\<exists>e. bind m f = (Inl e :: pyerr + 'b)"
  using assms by (cases m) simp_all

lemma blobs_unknown_method_fails:
  assumes "PUPILSEG_method cfg \<noteq> ''otsu''" and "PUPILSEG_method cfg \<noteq> ''kmeans''"
  shows "\<exists>e. SegmentPupil_blobs L roi cfg = Inl e"
  unfolding blobs_unknown_method[OF assms]
  by (intro bind_Inl_ex) blast

text \<open>
  Claim C10. When the configured method is neither \<open>otsu\<close> nor \<open>kmeans\<close>,
  \<open>SegmentPupil\<close> raises: an exception of glint removal or of the rescaling if one
  of them raises, and otherwise \<open>UnboundLocalError\<close>, because \<open>blobs\<close> is read by the
  morphological opening without having been assigned. So \<open>SegmentPupil\<close> returns a
  mask only for the methods \<open>otsu\<close> and \<open>kmeans\<close>.
\<close>

theorem SegmentPupil_unknown_method_raises:
  "(PUPILSEG_method cfg \<noteq> ''otsu'' \<and> PUPILSEG_method cfg \<noteq> ''kmeans'' \<longrightarrow>
      (\<exists>e. SegmentPupil L roi cfg = Inl e)
      \<and> (\<forall>r1 r2. RemoveGlint L roi 95 5 = Inr r1
                 \<and> ip_RobustRescale L r1 (PUPILSEG_percmin cfg, PUPILSEG_percmax cfg) = Inr r2
                 \<longrightarrow> SegmentPupil L roi cfg = Inl UnboundLocalError))
   \<and> (SegmentPupil L roi cfg = Inr bw \<longrightarrow>
        PUPILSEG_method cfg = ''otsu'' \<or> PUPILSEG_method cfg = ''kmeans'')"
proof -
  have fails: "\<exists>e. SegmentPupil L roi cfg = Inl e"
    if m: "PUPILSEG_method cfg \<noteq> ''otsu''" "PUPILSEG_method cfg \<noteq> ''kmeans''"
  proof -
    from blobs_unknown_method_fails[OF m] obtain e where "SegmentPupil_blobs L roi cfg = Inl e"
      by blast
    then show ?thesis
      by (simp add: SegmentPupil_def)
  qed
  have unbound: "SegmentPupil L roi cfg = Inl UnboundLocalError"
    if m: "PUPILSEG_method cfg \<noteq> ''otsu''" "PUPILSEG_method cfg \<noteq> ''kmeans''"
      and r: "RemoveGlint L roi 95 5 = Inr r1"
        "ip_RobustRescale L r1 (PUPILSEG_percmin cfg, PUPILSEG_percmax cfg) = Inr r2"
    for r1 r2
    unfolding SegmentPupil_def blobs_unknown_method[OF m] using r by simp
  have only: "PUPILSEG_method cfg = ''otsu'' \<or> PUPILSEG_method cfg = ''kmeans''"
    if "SegmentPupil L roi cfg = Inr bw"
  proof (rule ccontr)
    assume "\<not> (PUPILSEG_method cfg = ''otsu'' \<or> PUPILSEG_method cfg = ''kmeans'')"
    then have "\<exists>e. SegmentPupil L roi cfg = Inl e"
      using fails by blast
    with that show False
      by auto
  qed
  from fails unbound only show ?thesis
    by blast
qed

theorem SegmentPupil_unknown_method_raises_witness:
  "SegmentPupil stub_lib [[0, 0], [0, 0]] (stub_cfg\<lparr>PUPILSEG_method := ''watershed''\<rparr>)
     = Inl UnboundLocalError
   \<and> SegmentPupil stub_lib [[0, 0], [0, 0]] stub_cfg = Inr [[1, 1], [1, 1]]
   \<and> (PUPILSEG_method stub_cfg = ''otsu'' \<or> PUPILSEG_method stub_cfg = ''kmeans'')"
proof -
  let ?cfg = "stub_cfg\<lparr>PUPILSEG_method := ''watershed''\<rparr>"
  have m: "PUPILSEG_method ?cfg \<noteq> ''otsu'' \<and> PUPILSEG_method ?cfg \<noteq> ''kmeans''"
    by simp
  have g: "RemoveGlint stub_lib [[0, 0], [0, 0]] 95 5 = Inr [[0, 0], [0, 0]]"
    by (simp add: RemoveGlint_def stub_lib_def)
  have r: "ip_RobustRescale stub_lib [[0, 0], [0, 0]] (PUPILSEG_percmin ?cfg, PUPILSEG_percmax ?cfg)
            = Inr [[0, 0], [0, 0]]"
    by (simp add: stub_lib_def)
  note t = SegmentPupil_unknown_method_raises[of ?cfg stub_lib "[[0, 0], [0, 0]]"]
  from t[THEN conjunct1, THEN mp, OF m, THEN conjunct2] g r
  have a: "SegmentPupil stub_lib [[0, 0], [0, 0]] ?cfg = Inl UnboundLocalError"
    by blast
  from SegmentPupil_unknown_method_raises[of stub_cfg stub_lib "[[0, 0], [0, 0]]" "[[1, 1], [1, 1]]",
      THEN conjunct2, THEN mp, OF stub_segment]
  have b: "PUPILSEG_method stub_cfg = ''otsu'' \<or> PUPILSEG_method stub_cfg = ''kmeans''" .
  from a b stub_segment show ?thesis
    by blast
qed

subsection \<open>Areas and the selected label\<close>

lemma list_all2_concat:
  "list_all2 (list_all2 R) xss yss \<Longrightarrow> list_all2 R (concat xss) (concat yss)"
  by (induction rule: list_all2_induct) (auto intro: list_all2_appendI)

lemma label_sum:
  assumes "list_all2 (\<lambda>l v. (l = 0) = (v = 0)) ls vs"
    and "\<forall>v\<in>set vs. v = 0 \<or> v = fg"
  shows "sum_list (map snd (filter (\<lambda>(l, v). l = i) (zip ls vs)))
           = (if i = 0 then 0 else fg * count_list ls i)"
  using assms
proof (induction rule: list_all2_induct)
  case Nil
  then show ?case by simp
next
  case (Cons l ls v vs)
  then have ih: "sum_list (map snd (filter (\<lambda>(l, v). l = i) (zip ls vs)))
           = (if i = 0 then 0 else fg * count_list ls i)"
    by simp
  from Cons have lv: "(l = 0) = (v = 0)" "v = 0 \<or> v = fg"
    by simp_all
  show ?case
  proof (cases "l = i")
    case True
    with lv ih show ?thesis by auto
  next
    case False
    with ih show ?thesis by simp
  qed
qed

lemma length_blob_areas: "length (blob_areas blobs labels n) = Suc n"
  by (simp add: blob_areas_def)

lemma blob_areas_nth:
  assumes "list_all2 (list_all2 (\<lambda>l v. (l = 0) = (v = 0))) labels blobs"
    and "\<forall>v\<in>set (concat blobs). v = 0 \<or> v = fg"
    and "i \<le> n"
  shows "blob_areas blobs labels n ! i = (if i = 0 then 0 else fg * component_size labels i)"
proof -
  from assms(3) have "blob_areas blobs labels n ! i
      = sum_list (map snd (filter (\<lambda>(l, v). l = i) (zip (concat labels) (concat blobs))))"
    unfolding blob_areas_def by (simp add: nth_map_upt del: upt_Suc)
  also have "\<dots> = (if i = 0 then 0 else fg * count_list (concat labels) i)"
    by (rule label_sum[OF list_all2_concat[OF assms(1)] assms(2)])
  finally show ?thesis
    by (simp add: component_size_def)
qed

lemma largest_blob_selects:
  "\<exists>pl. largest_blob blobs labels n = Inr (map (map (\<lambda>l. if l = pl then 1 else 0)) labels)
        \<and> pl \<le> n
        \<and> (\<forall>j\<le>n. blob_areas blobs labels n ! j \<le> blob_areas blobs labels n ! pl)
        \<and> (\<forall>j<pl. blob_areas blobs labels n ! j < blob_areas blobs labels n ! pl)"
proof -
  define areas where "areas = blob_areas blobs labels n"
  have len: "length areas = Suc n"
    by (simp add: areas_def length_blob_areas)
  then have ne: "areas \<noteq> []"
    by auto
  define M where "M = Max (set areas)"
  have Min: "M \<in> set areas"
    unfolding M_def using ne by (intro Max_in) simp_all
  have Mge: "areas ! j \<le> M" if "j \<le> n" for j
    unfolding M_def using that len by (intro Max_ge) simp_all
  from Min obtain k where k: "k < length areas" "areas ! k = M"
    by (auto simp: in_set_conv_nth)
  then have "\<exists>x. x \<in> set [0 ..< length areas] \<and> areas ! x = M"
    by auto
  then obtain pl where f: "find (\<lambda>i. areas ! i = M) [0 ..< length areas] = Some pl"
    by (cases "find (\<lambda>i. areas ! i = M) [0 ..< length areas]") (auto simp: find_None_iff)
  then obtain i where i: "i < length [0 ..< length areas]" "areas ! ([0 ..< length areas] ! i) = M"
      "pl = [0 ..< length areas] ! i"
      "\<forall>j<i. areas ! ([0 ..< length areas] ! j) \<noteq> M"
    unfolding find_Some_iff by blast
  from i(1) have il: "i < length areas"
    by simp
  with i(3) have pli: "pl = i"
    by simp
  have plM: "areas ! pl = M"
    using i(2) il pli by simp
  have first: "areas ! j < M" if "j < pl" for j
  proof -
    from that pli il have jl: "j < length areas" by simp
    from i(4) that pli have "areas ! ([0 ..< length areas] ! j) \<noteq> M"
      by blast
    with jl have "areas ! j \<noteq> M"
      by simp
    moreover have "areas ! j \<le> M"
      using jl len by (intro Mge) simp
    ultimately show ?thesis by simp
  qed
  have res: "largest_blob blobs labels n = Inr (map (map (\<lambda>l. if l = pl then 1 else 0)) labels)"
    unfolding largest_blob_def Let_def
    using ne f by (simp add: areas_def[symmetric] M_def[symmetric])
  from res il len pli plM Mge first show ?thesis
    unfolding areas_def[symmetric] by (intro exI[of _ pl]) simp
qed

lemma largest_blob_component:
  assumes con: "list_all2 (list_all2 (\<lambda>l v. (l = 0) = (v = 0))) labels blobs"
    and le: "\<forall>l\<in>set (concat labels). l \<le> n"
    and fg: "0 < fg" "\<forall>v\<in>set (concat blobs). v = 0 \<or> v = fg"
    and ne: "\<exists>v\<in>set (concat blobs). v \<noteq> 0"
  shows "\<exists>pl. largest_blob blobs labels n = Inr (map (map (\<lambda>l. if l = pl then 1 else 0)) labels)
        \<and> 1 \<le> pl \<and> pl \<le> n
        \<and> (\<forall>j. 1 \<le> j \<and> j \<le> n \<longrightarrow> component_size labels j \<le> component_size labels pl)
        \<and> (\<forall>j. 1 \<le> j \<and> j < pl \<longrightarrow> component_size labels j < component_size labels pl)"
proof -
  note nth = blob_areas_nth[OF con fg(2)]
  from largest_blob_selects[of blobs labels n] obtain pl where
    pl: "largest_blob blobs labels n = Inr (map (map (\<lambda>l. if l = pl then 1 else 0)) labels)"
      "pl \<le> n"
      "\<forall>j\<le>n. blob_areas blobs labels n ! j \<le> blob_areas blobs labels n ! pl"
      "\<forall>j<pl. blob_areas blobs labels n ! j < blob_areas blobs labels n ! pl"
    by blast
  have all2: "list_all2 (\<lambda>l v. (l = 0) = (v = 0)) (concat labels) (concat blobs)"
    by (rule list_all2_concat[OF con])
  from ne obtain v where v: "v \<in> set (concat blobs)" "v \<noteq> 0"
    by blast
  from v(1) obtain k where k0: "k < length (concat blobs)" "concat blobs ! k = v"
    unfolding in_set_conv_nth by blast
  with v(2) have k: "k < length (concat blobs)" "concat blobs ! k \<noteq> 0"
    by simp_all
  from all2 have leq: "length (concat labels) = length (concat blobs)"
    by (rule list_all2_lengthD)
  define l where "l = concat labels ! k"
  have kl: "k < length (concat labels)"
    using k(1) leq by simp
  have "(concat labels ! k = 0) = (concat blobs ! k = 0)"
    by (rule list_all2_nthD[OF all2 kl])
  with k(2) have l0: "l \<noteq> 0"
    by (simp add: l_def)
  from kl have lin: "l \<in> set (concat labels)"
    unfolding l_def by (rule nth_mem)
  with le have ln: "l \<le> n"
    by blast
  from lin have "count_list (concat labels) l \<noteq> 0"
    unfolding count_list_0_iff by blast
  then have "0 < component_size labels l"
    unfolding component_size_def by simp
  with fg(1) l0 ln have posl: "0 < blob_areas blobs labels n ! l"
    by (simp add: nth)
  from pl(3) ln have "blob_areas blobs labels n ! l \<le> blob_areas blobs labels n ! pl"
    by blast
  with posl have pospl: "0 < blob_areas blobs labels n ! pl"
    by simp
  have pl1: "1 \<le> pl"
  proof (rule ccontr)
    assume "\<not> 1 \<le> pl"
    then have "pl = 0" by simp
    with pospl show False by (simp add: nth)
  qed
  then have plarea: "blob_areas blobs labels n ! pl = fg * component_size labels pl"
    using pl(2) by (simp add: nth)
  have ge: "component_size labels j \<le> component_size labels pl" if "1 \<le> j" "j \<le> n" for j
  proof -
    from pl(3) that have "blob_areas blobs labels n ! j \<le> blob_areas blobs labels n ! pl"
      by blast
    with that plarea have "fg * component_size labels j \<le> fg * component_size labels pl"
      by (simp add: nth)
    with fg(1) show ?thesis by simp
  qed
  have gt: "component_size labels j < component_size labels pl" if "1 \<le> j" "j < pl" for j
  proof -
    from pl(4) that have "blob_areas blobs labels n ! j < blob_areas blobs labels n ! pl"
      by blast
    moreover from that pl(2) have "j \<le> n" by simp
    ultimately have "fg * component_size labels j < fg * component_size labels pl"
      using that plarea by (simp add: nth)
    with fg(1) show ?thesis by simp
  qed
  from pl(1,2) pl1 ge gt show ?thesis
    by blast
qed




lemma segment_from_blobs:
  assumes "SegmentPupil_blobs L roi cfg = Inr blobs" and "label L blobs = Inr (labels, n)"
  shows "SegmentPupil L roi cfg = largest_blob blobs labels n"
  using assms by (simp add: SegmentPupil_def)

lemma gt_segment_from_blobs:
  assumes "gt_SegmentPupil_blobs L roi = Inr blobs" and "label L blobs = Inr (labels, n)"
  shows "gt_SegmentPupil L roi = largest_blob blobs labels n"
  using assms by (simp add: gt_SegmentPupil_def)

lemma count_list_map_inj:
  "inj f \<Longrightarrow> count_list (map f xs) (f x) = count_list xs x"
  by (induction xs) (auto dest: injD)

lemma component_size_relabel:
  assumes "inj f"
  shows "component_size (map (map f) labels) (f i) = component_size labels i"
proof -
  have "concat (map (map f) labels) = map f (concat labels)"
    by (simp add: map_concat)
  then show ?thesis
    by (simp add: component_size_def count_list_map_inj[OF assms])
qed

lemma relabel_contract:
  assumes "list_all2 (list_all2 (\<lambda>l v. (l = 0) = (v = 0))) labels blobs"
    and "inj f" and "f 0 = 0"
  shows "list_all2 (list_all2 (\<lambda>l v. (l = 0) = (v = 0))) (map (map f) labels) (blobs :: image)"
proof -
  have z: "(f l = 0) = (l = 0)" for l
    using inj_eq[OF assms(2), of l 0] assms(3) by simp
  show ?thesis
    unfolding list_all2_map1
    by (rule list_all2_mono[OF assms(1)]) (simp add: z)
qed

lemma relabel_bound:
  assumes "\<forall>l\<in>set (concat labels). l \<le> n" and "\<forall>l\<le>n. f l \<le> (n :: nat)"
  shows "\<forall>l\<in>set (concat (map (map f) labels)). l \<le> n"
proof
  fix l
  assume "l \<in> set (concat (map (map f) labels))"
  then have "l \<in> set (map f (concat labels))"
    by (simp only: map_concat)
  then obtain k where k: "k \<in> set (concat labels)" "l = f k"
    unfolding set_map by (rule imageE)
  from assms(1) k(1) have "k \<le> n"
    by (rule bspec)
  with assms(2) k(2) show "l \<le> n"
    by simp
qed

lemma relabel_mask:
  assumes "inj f"
  shows "map (map (\<lambda>l. if l = f pl then 1 else 0)) (map (map f) labels)
           = map (map (\<lambda>l. if l = pl then 1 else (0 :: nat))) labels"
proof -
  have "(f l = f pl) = (l = pl)" for l
    by (rule inj_eq[OF assms])
  then show ?thesis
    by (simp add: comp_def)
qed

lemma relabel_surj:
  assumes "inj f" and "\<forall>l\<le>n. f l \<le> (n :: nat)" and "p \<le> n"
  shows "\<exists>q\<le>n. f q = p"
proof -
  have i: "inj_on f {0..n}"
    using assms(1) by (rule inj_on_subset) (rule subset_UNIV)
  have s: "f ` {0..n} \<subseteq> {0..n}"
  proof (rule image_subsetI)
    fix x
    assume "x \<in> {0..n}"
    then have "x \<le> n"
      by simp
    with assms(2)[THEN spec, of x] have "f x \<le> n"
      by (rule mp)
    then show "f x \<in> {0..n}"
      by simp
  qed
  have "finite {0..n}"
    by (rule finite_atLeastAtMost)
  from this s i have "f ` {0..n} = {0..n}"
    by (rule endo_inj_surj)
  moreover from assms(3) have "p \<in> {0..n}"
    by simp
  ultimately have "p \<in> f ` {0..n}"
    by (rule ssubst)
  then obtain q where q: "p = f q" "q \<in> {0..n}"
    by (rule imageE)
  from q(2) have "q \<le> n"
    by simp
  with q(1) show ?thesis
    by (intro exI[of _ q]) simp
qed

subsection \<open>Largest component\<close>

text \<open>
  Claim C4. Let \<open>blobs\<close> be a binary mask (every pixel 0 or one foreground value) that
  is not empty, and \<open>labels\<close>, \<open>n\<close> a labelling of it: a pixel has label 0 exactly when
  it is 0 in the mask, and labels are at most \<open>n\<close>. Then the selection returns the
  indicator mask of one label \<open>pl\<close> between 1 and \<open>n\<close> whose component has the largest
  pixel area, and every component with a smaller label is strictly smaller (the first
  label wins a tie). This is what \<open>SegmentPupil\<close> of either package returns when the
  opened mask and its labelling are these. When the areas of the components differ
  pairwise, renumbering the labels does not change the returned mask.
\<close>

theorem SegmentPupil_selects_largest_component:
  assumes con: "list_all2 (list_all2 (\<lambda>l v. (l = 0) = (v = 0))) labels blobs"
    and le: "\<forall>l\<in>set (concat labels). l \<le> n"
    and fg: "0 < fg" "\<forall>v\<in>set (concat blobs). v = 0 \<or> v = fg"
    and ne: "\<exists>v\<in>set (concat blobs). v \<noteq> 0"
  shows "\<exists>pl. largest_blob blobs labels n
              = Inr (map (map (\<lambda>l. if l = pl then 1 else 0)) labels)
        \<and> 1 \<le> pl \<and> pl \<le> n
        \<and> (\<forall>j. 1 \<le> j \<and> j \<le> n \<longrightarrow> component_size labels j \<le> component_size labels pl)
        \<and> (\<forall>j. 1 \<le> j \<and> j < pl \<longrightarrow> component_size labels j < component_size labels pl)
        \<and> (SegmentPupil_blobs L roi cfg = Inr blobs \<and> label L blobs = Inr (labels, n) \<longrightarrow>
             SegmentPupil L roi cfg = Inr (map (map (\<lambda>l. if l = pl then 1 else 0)) labels))
        \<and> (gt_SegmentPupil_blobs L roi = Inr blobs \<and> label L blobs = Inr (labels, n) \<longrightarrow>
             gt_SegmentPupil L roi = Inr (map (map (\<lambda>l. if l = pl then 1 else 0)) labels))
        \<and> (\<forall>f. inj f \<and> f 0 = 0 \<and> (\<forall>l\<le>n. f l \<le> n)
                \<and> (\<forall>i j. 1 \<le> i \<and> i < j \<and> j \<le> n \<longrightarrow>
                       component_size labels i \<noteq> component_size labels j)
              \<longrightarrow> largest_blob blobs (map (map f) labels) n
                    = Inr (map (map (\<lambda>l. if l = pl then 1 else 0)) labels))"
proof -
  from largest_blob_component[OF con le fg ne] obtain pl where
    pl: "largest_blob blobs labels n = Inr (map (map (\<lambda>l. if l = pl then 1 else 0)) labels)"
      "1 \<le> pl" "pl \<le> n"
      "\<forall>j. 1 \<le> j \<and> j \<le> n \<longrightarrow> component_size labels j \<le> component_size labels pl"
      "\<forall>j. 1 \<le> j \<and> j < pl \<longrightarrow> component_size labels j < component_size labels pl"
    by (elim exE conjE)
  have seg: "SegmentPupil L roi cfg = Inr (map (map (\<lambda>l. if l = pl then 1 else 0)) labels)"
    if "SegmentPupil_blobs L roi cfg = Inr blobs \<and> label L blobs = Inr (labels, n)"
    using that segment_from_blobs[of L roi cfg blobs labels n] pl(1) by simp
  have gseg: "gt_SegmentPupil L roi = Inr (map (map (\<lambda>l. if l = pl then 1 else 0)) labels)"
    if "gt_SegmentPupil_blobs L roi = Inr blobs \<and> label L blobs = Inr (labels, n)"
    using that gt_segment_from_blobs[of L roi blobs labels n] pl(1) by simp
  have relabel: "largest_blob blobs (map (map f) labels) n
                    = Inr (map (map (\<lambda>l. if l = pl then 1 else 0)) labels)"
    if f: "inj f \<and> f 0 = 0 \<and> (\<forall>l\<le>n. f l \<le> n)
                \<and> (\<forall>i j. 1 \<le> i \<and> i < j \<and> j \<le> n \<longrightarrow>
                       component_size labels i \<noteq> component_size labels j)" for f
  proof -
    from f have inj: "inj f"
      by (rule conjunct1)
    from f have f0: "f 0 = 0"
      by (rule conjunct2[THEN conjunct1])
    from f have fle: "\<forall>l\<le>n. f l \<le> n"
      by (rule conjunct2[THEN conjunct2, THEN conjunct1])
    from f have dist: "\<forall>i j. 1 \<le> i \<and> i < j \<and> j \<le> n \<longrightarrow>
                       component_size labels i \<noteq> component_size labels j"
      by (rule conjunct2[THEN conjunct2, THEN conjunct2])
    let ?labels = "map (map f) labels"
    note con' = relabel_contract[OF con inj f0]
    note le' = relabel_bound[OF le fle]
    from largest_blob_component[OF con' le' fg ne] obtain pl' where
      pl': "largest_blob blobs ?labels n = Inr (map (map (\<lambda>l. if l = pl' then 1 else 0)) ?labels)"
        "1 \<le> pl'" "pl' \<le> n"
        "\<forall>j. 1 \<le> j \<and> j \<le> n \<longrightarrow> component_size ?labels j \<le> component_size ?labels pl'"
      by (elim exE conjE)
    from relabel_surj[OF inj fle pl'(3)] obtain q where q: "q \<le> n" "f q = pl'"
      by blast
    have q1: "1 \<le> q"
    proof (rule ccontr)
      assume "\<not> 1 \<le> q"
      then have "q = 0" by simp
      with q(2) f0 pl'(2) show False by simp
    qed
    have fpl: "1 \<le> f pl \<and> f pl \<le> n"
    proof -
      have "f pl \<noteq> 0"
        using inj_eq[OF inj, of pl 0] f0 pl(2) by simp
      with fle pl(3) show ?thesis by simp
    qed
    with pl'(4) have "component_size ?labels (f pl) \<le> component_size ?labels pl'"
      by blast
    then have a: "component_size labels pl \<le> component_size labels q"
      unfolding q(2)[symmetric] component_size_relabel[OF inj] .
    from pl(4) q1 q(1) have b: "component_size labels q \<le> component_size labels pl"
      by blast
    have "q = pl"
    proof (rule ccontr)
      assume neq: "q \<noteq> pl"
      from a b have eq: "component_size labels q = component_size labels pl"
        by simp
      from neq consider "q < pl" | "pl < q"
        by linarith
      then show False
      proof cases
        case 1
        with dist q1 pl(3) have "component_size labels q \<noteq> component_size labels pl"
          by blast
        with eq show False by simp
      next
        case 2
        with dist pl(2) q(1) have "component_size labels pl \<noteq> component_size labels q"
          by blast
        with eq show False by simp
      qed
    qed
    with q(2) have "pl' = f pl"
      by simp
    with pl'(1) show ?thesis
      by (simp only: relabel_mask[OF inj])
  qed
  show ?thesis
    apply (rule exI[of _ pl])
    apply (intro conjI)
           apply (rule pl(1))
          apply (rule pl(2))
         apply (rule pl(3))
        apply (rule pl(4))
       apply (rule pl(5))
      apply (rule impI, erule seg)
     apply (rule impI, erule gseg)
    apply (rule allI, rule impI, erule relabel)
    done
qed

theorem SegmentPupil_selects_largest_component_witness:
  "SegmentPupil (stub_lib\<lparr>label := \<lambda>b. Inr ([[1, 0, 2, 2]], 2)\<rparr>) [[0, 200, 0, 0]] stub_cfg
     = Inr [[0, 0, 1, 1]]
   \<and> largest_blob [[255, 0, 255, 255]] [[2, 0, 1, 1]] 2 = Inr [[0, 0, 1, 1]]"
proof -
  let ?L = "stub_lib\<lparr>label := \<lambda>b. Inr ([[1, 0, 2, 2]], 2)\<rparr>"
  let ?f = "\<lambda>l :: nat. if l = 1 then 2 else if l = 2 then 1 else l"
  have con: "list_all2 (list_all2 (\<lambda>l v. (l = 0) = (v = 0)))
               [[1, 0, 2, 2 :: nat]] [[255, 0, 255, 255 :: nat]]"
    by simp
  have le: "\<forall>l\<in>set (concat [[1, 0, 2, 2 :: nat]]). l \<le> 2"
    by simp
  have fg: "0 < (255 :: nat)" "\<forall>v\<in>set (concat [[255, 0, 255, 255 :: nat]]). v = 0 \<or> v = 255"
    by simp_all
  have ne: "\<exists>v\<in>set (concat [[255, 0, 255, 255 :: nat]]). v \<noteq> 0"
    by simp
  have blobs: "SegmentPupil_blobs ?L [[0, 200, 0, 0]] stub_cfg = Inr [[255, 0, 255, 255]]"
    by (simp add: SegmentPupil_blobs_def RemoveGlint_def stub_lib_def stub_cfg_def)
  have lab: "label ?L [[255, 0, 255, 255]] = Inr ([[1, 0, 2, 2]], 2)"
    by simp
  have s1: "component_size [[1, 0, 2, 2]] 1 = 1" and s2: "component_size [[1, 0, 2, 2]] 2 = 2"
    by (simp_all add: component_size_def)
  have inv: "?f (?f x) = x" for x
  proof (cases "x = 1")
    case True
    then show ?thesis by simp
  next
    case False
    then show ?thesis by (cases "x = 2") simp_all
  qed
  have inj: "inj ?f"
    by (rule inj_on_inverseI[of UNIV ?f ?f]) (rule inv)
  have fle: "\<forall>l\<le>2. ?f l \<le> 2"
    by simp
  have dist: "\<forall>i j. 1 \<le> i \<and> i < j \<and> j \<le> 2 \<longrightarrow>
                component_size [[1, 0, 2, 2]] i \<noteq> component_size [[1, 0, 2, 2]] j"
  proof (intro allI impI)
    fix i j :: nat
    assume "1 \<le> i \<and> i < j \<and> j \<le> 2"
    then have "i = 1" "j = 2"
      by simp_all
    then show "component_size [[1, 0, 2, 2]] i \<noteq> component_size [[1, 0, 2, 2]] j"
      by (simp add: component_size_def)
  qed
  have rel: "map (map ?f) [[1, 0, 2, 2]] = [[2, 0, 1, 1]]"
    by simp
  from SegmentPupil_selects_largest_component[OF con le fg ne, of ?L "[[0, 200, 0, 0]]" stub_cfg]
  obtain pl where
    pl: "1 \<le> pl" "pl \<le> 2"
      "\<forall>j. 1 \<le> j \<and> j \<le> 2 \<longrightarrow> component_size [[1, 0, 2, 2]] j \<le> component_size [[1, 0, 2, 2]] pl"
      "SegmentPupil_blobs ?L [[0, 200, 0, 0]] stub_cfg = Inr [[255, 0, 255, 255]]
         \<and> label ?L [[255, 0, 255, 255]] = Inr ([[1, 0, 2, 2]], 2) \<longrightarrow>
       SegmentPupil ?L [[0, 200, 0, 0]] stub_cfg
         = Inr (map (map (\<lambda>l. if l = pl then 1 else 0)) [[1, 0, 2, 2]])"
      "\<forall>f :: nat \<Rightarrow> nat. inj f \<and> f 0 = 0 \<and> (\<forall>l\<le>2. f l \<le> 2)
                \<and> (\<forall>i j. 1 \<le> i \<and> i < j \<and> j \<le> 2 \<longrightarrow>
                       component_size [[1, 0, 2, 2]] i \<noteq> component_size [[1, 0, 2, 2]] j)
              \<longrightarrow> largest_blob [[255, 0, 255, 255]] (map (map f) [[1, 0, 2, 2]]) 2
                    = Inr (map (map (\<lambda>l. if l = pl then 1 else 0)) [[1, 0, 2, 2]])"
    by (elim exE conjE)
  have "pl = 2"
  proof (rule ccontr)
    assume "pl \<noteq> 2"
    with pl(1,2) have "pl = 1"
      by simp
    with pl(3)[THEN spec, of 2] show False
      by (simp add: component_size_def)
  qed
  then have m: "map (map (\<lambda>l. if l = pl then 1 else 0)) [[1, 0, 2, 2 :: nat]] = [[0, 0, 1, 1 :: nat]]"
    by simp
  from pl(4) blobs lab have a: "SegmentPupil ?L [[0, 200, 0, 0]] stub_cfg = Inr [[0, 0, 1, 1]]"
    unfolding m by (elim impE) (rule conjI)
  from pl(5)[THEN spec, of ?f] inj fle dist
  have b: "largest_blob [[255, 0, 255, 255]] [[2, 0, 1, 1]] 2 = Inr [[0, 0, 1, 1]]"
    unfolding m rel by simp
  from a b show ?thesis
    by (rule conjI)
qed

subsection \<open>Empty mask\<close>









subsection \<open>Recorded pupil area\<close>

lemma round_half_even_near: "\<bar>real_of_int (round_half_even y) - y\<bar> \<le> 1 / 2"
proof -
  define f where "f = \<lfloor>y\<rfloor>"
  define r where "r = y - of_int f"
  have r0: "0 \<le> r" and r1: "r < 1"
    unfolding r_def f_def by linarith+
  have y: "y = of_int f + r"
    by (simp add: r_def)
  consider "r < 1 / 2" | "1 / 2 < r" | "r = 1 / 2"
    by linarith
  then show ?thesis
  proof cases
    case 1
    then have "round_half_even y = f"
      by (simp add: round_half_even_def Let_def f_def r_def)
    with 1 r0 y show ?thesis by simp
  next
    case 2
    then have "round_half_even y = f + 1"
      by (simp add: round_half_even_def Let_def f_def r_def)
    with 2 r1 y show ?thesis by simp
  next
    case 3
    then have "round_half_even y = f \<or> round_half_even y = f + 1"
      by (simp add: round_half_even_def Let_def f_def r_def)
    with 3 y show ?thesis by auto
  qed
qed

lemma fl_sq_Fin: "fl_sq (Fin r) = Fin (r\<^sup>2)"
  by (simp add: fl_sq_def power2_eq_square)

lemma area_eq_ellipse_iff: "(pi * r\<^sup>2 = pi * r * s) = (r = 0 \<or> r = s)"
proof -
  have "(pi * r\<^sup>2 = pi * r * s) = (pi * (r * r) = pi * (r * s))"
    by (simp add: power2_eq_square mult.assoc)
  also have "\<dots> = (r * r = r * s)"
    by simp
  also have "\<dots> = (r = 0 \<or> r = s)"
    by auto
  finally show ?thesis .
qed

lemma written_area:
  "last (snd (WritePupilometry out t ((x0, y0), (b, a), phi) blink art pg)) ! 1
     = fmt_f 1 (PupilArea ((x0, y0), (b, a), phi))"
  by (simp add: WritePupilometry_def Let_def split: prod.split)

text \<open>
  Claim C9, as the code has it. For an ellipse \<open>((x0, y0), (b, a), phi)\<close>,
  \<open>PupilArea\<close> is \<open>pi * a\<^sup>2\<close> with \<open>a\<close> the second element of the axes pair, the
  same for every first axis element, centre and rotation. \<open>WritePupilometry\<close> returns
  this value and writes it with one decimal place in field 1 of the line: the recorded
  number is a multiple of \<open>1/10\<close> within \<open>1/20\<close> of \<open>pi * a\<^sup>2\<close>. The value
  \<open>pi * a\<^sup>2\<close> is the ellipse area \<open>pi * a * b\<close> exactly when \<open>a = 0\<close> or \<open>a = b\<close>.
\<close>

theorem PupilArea_written_to_one_decimal:
  "PupilArea ((x0, y0), (b, a), phi) = fl_mul (Fin pi) (fl_sq a)
   \<and> PupilArea ((x0, y0), (b, Fin r), phi) = Fin (pi * r\<^sup>2)
   \<and> PupilArea ((x0', y0'), (b', a), phi') = PupilArea ((x0, y0), (b, a), phi)
   \<and> fst (WritePupilometry out t ((x0, y0), (b, a), phi) blink art pg)
       = PupilArea ((x0, y0), (b, a), phi)
   \<and> last (snd (WritePupilometry out t ((x0, y0), (b, a), phi) blink art pg)) ! 1
       = fmt_f 1 (PupilArea ((x0, y0), (b, a), phi))
   \<and> (\<exists>k. last (snd (WritePupilometry out t ((x0, y0), (b, Fin r), phi) blink art pg)) ! 1
             = Fin (real_of_int k / 10)
          \<and> \<bar>real_of_int k / 10 - pi * r\<^sup>2\<bar> \<le> 1 / 20)
   \<and> (PupilArea ((x0, y0), (Fin s, Fin r), phi) = Fin (pi * r * s)) = (r = 0 \<or> r = s)"
proof -
  have area: "PupilArea ((x0, y0), (b, Fin r), phi) = Fin (pi * r\<^sup>2)" for x0 y0 b phi
    by (simp add: PupilArea_def fl_sq_Fin)
  have ret: "fst (WritePupilometry out t ((x0, y0), (b, a), phi) blink art pg)
       = PupilArea ((x0, y0), (b, a), phi)"
    by (simp add: WritePupilometry_def Let_def split: prod.split)
  define k where "k = round_half_even (pi * r\<^sup>2 * 10)"
  have rec: "last (snd (WritePupilometry out t ((x0, y0), (b, Fin r), phi) blink art pg)) ! 1
             = Fin (real_of_int k / 10)"
    unfolding written_area area by (simp add: fmt_f_def k_def)
  have "\<bar>real_of_int k - pi * r\<^sup>2 * 10\<bar> \<le> 1 / 2"
    unfolding k_def by (rule round_half_even_near)
  then have near: "\<bar>real_of_int k / 10 - pi * r\<^sup>2\<bar> \<le> 1 / 20"
    by (simp add: abs_le_iff field_simps)
  have indep: "PupilArea ((x0', y0'), (b', a), phi') = PupilArea ((x0, y0), (b, a), phi)"
    by (simp add: PupilArea_def)
  have iff: "(PupilArea ((x0, y0), (Fin s, Fin r), phi) = Fin (pi * r * s)) = (r = 0 \<or> r = s)"
    unfolding area by (simp add: area_eq_ellipse_iff)
  have def: "PupilArea ((x0, y0), (b, a), phi) = fl_mul (Fin pi) (fl_sq a)"
    by (simp add: PupilArea_def)
  from def area indep ret written_area rec near iff show ?thesis
    by blast
qed

text \<open>
  At \<open>a = 1/10\<close> the area is \<open>pi / 100\<close> and the recorded field is \<open>0.0\<close>; on the
  circle \<open>a = b = 1\<close> the area \<open>pi * a\<^sup>2\<close> is the ellipse area \<open>pi * a * b\<close>.
\<close>

theorem PupilArea_claim_counterexample:
  "PupilArea ((Fin 0, Fin 0), (Fin 1, Fin (1 / 10)), Fin 0) = Fin (pi * (1 / 10)\<^sup>2)
   \<and> last (snd (WritePupilometry [] (Fin 0) ((Fin 0, Fin 0), (Fin 1, Fin (1 / 10)), Fin 0)
                   False (Fin 0) (Fin 0, Fin 0))) ! 1 = Fin 0
   \<and> Fin 0 \<noteq> Fin (pi * (1 / 10)\<^sup>2)
   \<and> PupilArea ((Fin 0, Fin 0), (Fin 1, Fin 1), Fin 0) = Fin (pi * 1 * 1)"
proof -
  have fl: "\<lfloor>pi / 10\<rfloor> = 0"
    using pi_ge_two pi_less_4 by (simp add: floor_eq_iff)
  have "pi / 10 < 1 / 2"
    using pi_less_4 by simp
  with fl have rnd: "round_half_even (pi / 10) = 0"
    by (simp add: round_half_even_def Let_def)
  have a: "PupilArea ((Fin 0, Fin 0), (Fin 1, Fin (1 / 10)), Fin 0) = Fin (pi * (1 / 10)\<^sup>2)"
    by (simp add: PupilArea_def fl_sq_Fin)
  have eq: "pi * (1 / 10)\<^sup>2 * 10 ^ 1 = pi / 10"
    by (simp add: power2_eq_square)
  have b: "last (snd (WritePupilometry [] (Fin 0) ((Fin 0, Fin 0), (Fin 1, Fin (1 / 10)), Fin 0)
                   False (Fin 0) (Fin 0, Fin 0))) ! 1 = Fin 0"
    unfolding written_area a fmt_f_def by (simp only: fl.case eq rnd) simp
  have c: "Fin 0 \<noteq> Fin (pi * (1 / 10)\<^sup>2)"
    by simp
  have d: "PupilArea ((Fin 0, Fin 0), (Fin 1, Fin 1), Fin 0) = Fin (pi * 1 * 1)"
    by (simp add: PupilArea_def fl_sq_Fin)
  from a b c d show ?thesis
    by blast
qed


end
